theory Spec2Isabelle
  imports Main "HOL-Library.Word" "HOL-Library.List_Lexorder" "HOL-Library.Product_Lexorder"
    "HOL-Library.Multiset"
begin

unbundle bit_operations_syntax

section \<open>Values: Python strings and JSON\<close>

text \<open>
  A Python \<open>str\<close> is a sequence of Unicode code points, so it is modelled as a list of
  natural numbers. Lone surrogates (\<open>0xD800\<close> to \<open>0xDFFF\<close>) are legal in a \<open>str\<close>
  (\<open>json.loads\<close> produces them from \<open>\ud800\<close> escapes) but have no UTF-8 encoding:
  \<open>str.encode("utf-8")\<close> raises on them, and the model keeps that failure. String
  comparison in Python is lexicographic on code points, which is the list order of
  \<open>HOL-Library.List_Lexorder\<close>. \<open>U\<close> turns an ASCII literal into such a string.
\<close>

type_synonym ustr = "nat list"

definition U :: "string \<Rightarrow> ustr" where
  "U s = map of_char s"

text \<open>
  Events, payloads and status documents are JSON values. A Python \<open>dict\<close> keeps insertion
  order, so an object is an association list; \<open>None\<close> is \<open>JNull\<close>. Floating-point numbers
  are left out of the model.
\<close>

datatype json = JNull | JBool bool | JInt int | JStr ustr | JArr "json list"
  | JObj "(ustr \<times> json) list"

type_synonym dict = "(ustr \<times> json) list"

datatype error = ValueError | TypeError | NameError | ZeroDivisionError | UnicodeEncodeError

text \<open>Python truthiness (\<open>if x:\<close>, \<open>x or y\<close>) of a JSON value.\<close>

fun truthy :: "json \<Rightarrow> bool" where
  "truthy JNull = False"
| "truthy (JBool b) = b"
| "truthy (JInt i) = (i \<noteq> 0)"
| "truthy (JStr s) = (s \<noteq> [])"
| "truthy (JArr xs) = (xs \<noteq> [])"
| "truthy (JObj kvs) = (kvs \<noteq> [])"

definition py_or :: "json \<Rightarrow> json \<Rightarrow> json" where
  "py_or a b = (if truthy a then a else b)"

subsection \<open>Dictionary operations\<close>

text \<open>\<open>k in d\<close>, \<open>d.get(k)\<close> (with \<open>None\<close> for a missing key), \<open>d[k] = v\<close>,
  \<open>d.setdefault(k, v)\<close> and the merge \<open>{**a, **b}\<close>.\<close>

definition has_key :: "('k \<times> 'v) list \<Rightarrow> 'k \<Rightarrow> bool" where
  "has_key d k = (map_of d k \<noteq> None)"

definition py_get :: "dict \<Rightarrow> ustr \<Rightarrow> json" where
  "py_get d k = (case map_of d k of None \<Rightarrow> JNull | Some v \<Rightarrow> v)"

fun dict_set :: "('k \<times> 'v) list \<Rightarrow> 'k \<Rightarrow> 'v \<Rightarrow> ('k \<times> 'v) list" where
  "dict_set [] k v = [(k, v)]"
| "dict_set ((k', v') # d) k v = (if k' = k then (k, v) # d else (k', v') # dict_set d k v)"

definition setdefault :: "('k \<times> 'v) list \<Rightarrow> 'k \<Rightarrow> 'v \<Rightarrow> ('k \<times> 'v) list" where
  "setdefault d k v = (if has_key d k then d else dict_set d k v)"

definition dict_merge :: "('k \<times> 'v) list \<Rightarrow> ('k \<times> 'v) list \<Rightarrow> ('k \<times> 'v) list" where
  "dict_merge a b = foldl (\<lambda>d (k, v). dict_set d k v) a b"

text \<open>
  Typed reads. The data model gives every event field a type (strings for \<open>type\<close>,
  \<open>project\<close>, \<open>taskId\<close>, \<open>runId\<close>, \<open>eventId\<close> and \<open>idempotencyKey\<close>, an integer for
  \<open>sequenceNumber\<close>, an object for \<open>payload\<close>). The source reads them with \<open>.get\<close> and
  never checks the type; the model reads a field at its declared type and takes a missing
  field, a \<open>null\<close> and a value of another JSON type alike as \<open>None\<close>.
\<close>

definition get_str :: "dict \<Rightarrow> ustr \<Rightarrow> ustr option" where
  "get_str d k = (case map_of d k of Some (JStr s) \<Rightarrow> Some s | _ \<Rightarrow> None)"

definition get_int :: "dict \<Rightarrow> ustr \<Rightarrow> int \<Rightarrow> int" where
  "get_int d k dflt = (case map_of d k of Some (JInt i) \<Rightarrow> i | _ \<Rightarrow> dflt)"

definition get_dict :: "dict \<Rightarrow> ustr \<Rightarrow> dict" where
  "get_dict d k = (case map_of d k of Some (JObj kvs) \<Rightarrow> kvs | _ \<Rightarrow> [])"

definition str_truthy :: "ustr option \<Rightarrow> bool" where
  "str_truthy s = (case s of None \<Rightarrow> False | Some t \<Rightarrow> t \<noteq> [])"

definition opt_json :: "ustr option \<Rightarrow> json" where
  "opt_json s = (case s of None \<Rightarrow> JNull | Some t \<Rightarrow> JStr t)"

text \<open>How an f-string renders an optional string: \<open>None\<close> prints as the word \<open>None\<close>.\<close>

definition fmt_opt :: "ustr option \<Rightarrow> ustr" where
  "fmt_opt s = (case s of None \<Rightarrow> U ''None'' | Some t \<Rightarrow> t)"

section \<open>Canonical codec (core/protocol.py)\<close>

subsection \<open>\<open>json.dumps(..., sort_keys=True, separators=(",", ":"), ensure_ascii=False)\<close>\<close>

definition hex_digit :: "bool \<Rightarrow> nat \<Rightarrow> nat" where
  "hex_digit upper n = (if n < 10 then 48 + n else (if upper then 55 else 87) + n)"

fun dec_digits :: "nat \<Rightarrow> ustr" where
  "dec_digits n = (if n < 10 then [48 + n] else dec_digits (n div 10) @ [48 + n mod 10])"

declare dec_digits.simps [simp del]

definition py_str_int :: "int \<Rightarrow> ustr" where
  "py_str_int i = (if i < 0 then 45 # dec_digits (nat (- i)) else dec_digits (nat i))"

text \<open>
  With \<open>ensure_ascii=False\<close> the encoder escapes only the backslash (92), the double quote
  (34) and the control characters below 32: \<open>\b \f \n \r \t\<close> by name, the others as
  \<open>\u00XX\<close> in lower-case hex. Every other code point is copied.
\<close>

definition escape_char :: "nat \<Rightarrow> ustr" where
  "escape_char c =
     (if c = 92 then [92, 92]
      else if c = 34 then [92, 34]
      else if c = 8 then [92, 98]
      else if c = 12 then [92, 102]
      else if c = 10 then [92, 110]
      else if c = 13 then [92, 114]
      else if c = 9 then [92, 116]
      else if c < 32 then
        [92, 117, 48, 48, hex_digit False (c div 16), hex_digit False (c mod 16)]
      else [c])"

definition encode_basestring :: "ustr \<Rightarrow> ustr" where
  "encode_basestring s = 34 # concat (map escape_char s) @ [34]"

fun join :: "ustr \<Rightarrow> ustr list \<Rightarrow> ustr" where
  "join sep [] = []"
| "join sep [x] = x"
| "join sep (x # y # ys) = x @ sep @ join sep (y # ys)"

text \<open>The flag is \<open>sort_keys\<close>: the canonical form sorts the keys of every object, the
  line written to the log keeps insertion order.\<close>

function json_dumps :: "bool \<Rightarrow> json \<Rightarrow> ustr" where
  "json_dumps sk JNull = U ''null''"
| "json_dumps sk (JBool b) = (if b then U ''true'' else U ''false'')"
| "json_dumps sk (JInt i) = py_str_int i"
| "json_dumps sk (JStr s) = encode_basestring s"
| "json_dumps sk (JArr xs) = U ''['' @ join (U '','') (map (json_dumps sk) xs) @ U '']''"
| "json_dumps sk (JObj kvs) =
     U ''{'' @ join (U '','')
        (map (\<lambda>(k, v). encode_basestring k @ U '':'' @ json_dumps sk v)
           (if sk then sort_key fst kvs else kvs))
      @ U ''}''"
  by pat_completeness auto

termination
proof (relation "measure (\<lambda>(sk, v). size v)")
  show "wf (measure (\<lambda>(sk, v). size v))"
    by simp
next
  fix sk :: bool and xs :: "json list" and x :: json
  assume "x \<in> set xs"
  then have "size x < Suc (size_list size xs)"
    by (induction xs) auto
  then show "((sk, x), (sk, JArr xs)) \<in> measure (\<lambda>(sk, v). size v)"
    by simp
next
  fix sk :: bool and kvs :: "(ustr \<times> json) list" and p :: "ustr \<times> json" and k :: ustr and v :: json
  assume "p \<in> set (if sk then sort_key fst kvs else kvs)" and "(k, v) = p"
  then have "(k, v) \<in> set kvs"
    by (simp split: if_splits)
  then have "size v < Suc (size_list (\<lambda>p. Suc (size (snd p))) kvs)"
    by (induction kvs) auto
  then show "((sk, v), (sk, JObj kvs)) \<in> measure (\<lambda>(sk, v). size v)"
    by (simp add: size_prod_simp)
qed

subsection \<open>\<open>str.encode("utf-8")\<close>\<close>

definition utf8_char :: "nat \<Rightarrow> error + 8 word list" where
  "utf8_char c =
     (if c < 0x80 then Inr [of_nat c]
      else if c < 0x800 then Inr [of_nat (0xC0 + c div 64), of_nat (0x80 + c mod 64)]
      else if 0xD800 \<le> c \<and> c \<le> 0xDFFF then Inl UnicodeEncodeError
      else if c < 0x10000 then
        Inr [of_nat (0xE0 + c div 4096), of_nat (0x80 + (c div 64) mod 64),
             of_nat (0x80 + c mod 64)]
      else if c < 0x110000 then
        Inr [of_nat (0xF0 + c div 262144), of_nat (0x80 + (c div 4096) mod 64),
             of_nat (0x80 + (c div 64) mod 64), of_nat (0x80 + c mod 64)]
      else Inl UnicodeEncodeError)"

fun utf8_encode :: "ustr \<Rightarrow> error + 8 word list" where
  "utf8_encode [] = Inr []"
| "utf8_encode (c # cs) =
     (case utf8_char c of
        Inl e \<Rightarrow> Inl e
      | Inr bs \<Rightarrow> (case utf8_encode cs of Inl e \<Rightarrow> Inl e | Inr rest \<Rightarrow> Inr (bs @ rest)))"

text \<open>
  The strings \<open>str.encode("utf-8")\<close> accepts: no surrogate, nothing above \<open>0x10FFFF\<close>;
  and the JSON values all of whose strings and keys are such.
\<close>

definition encodable :: "ustr \<Rightarrow> bool" where
  "encodable s = (\<forall>c \<in> set s. c < 0xD800 \<or> (0xDFFF < c \<and> c < 0x110000))"

fun json_encodable :: "json \<Rightarrow> bool" where
  "json_encodable (JStr s) = encodable s"
| "json_encodable (JArr xs) = (\<forall>x \<in> set xs. json_encodable x)"
| "json_encodable (JObj kvs) = (\<forall>p \<in> set kvs. encodable (fst p) \<and> json_encodable (snd p))"
| "json_encodable v = True"

subsection \<open>\<open>zlib.crc32\<close> and the \<open>08X\<close> format\<close>

text \<open>
  CRC-32 (IEEE 802.3) as zlib computes it: reflected polynomial \<open>0xEDB88320\<close>, initial
  value and final complement \<open>0xFFFFFFFF\<close>, one byte at a time, eight shifts per byte.
\<close>

definition crc_step :: "32 word \<Rightarrow> 32 word" where
  "crc_step c = (if bit c 0 then drop_bit 1 c XOR 0xEDB88320 else drop_bit 1 c)"

definition crc_update :: "32 word \<Rightarrow> 8 word \<Rightarrow> 32 word" where
  "crc_update c b = (crc_step ^^ 8) (c XOR ucast b)"

definition zlib_crc32 :: "8 word list \<Rightarrow> 32 word" where
  "zlib_crc32 bs = NOT (foldl crc_update (NOT 0) bs)"

definition format_08X :: "32 word \<Rightarrow> ustr" where
  "format_08X w = map (\<lambda>i. hex_digit True (unat (drop_bit (4 * i) w AND 0xF))) [7, 6, 5, 4, 3, 2, 1, 0]"

text \<open>The code points of the digits \<open>0\<close> to \<open>9\<close> and of the capitals \<open>A\<close> to \<open>F\<close>.\<close>

definition is_upper_hex :: "nat \<Rightarrow> bool" where
  "is_upper_hex c = ((48 \<le> c \<and> c \<le> 57) \<or> (65 \<le> c \<and> c \<le> 70))"

subsection \<open>The codec\<close>

text \<open>
  \<^verbatim>\<open>
  def canonical_json(event):
      event_copy = {**event, "crc32": ""}
      return json.dumps(event_copy, sort_keys=True, separators=(",", ":"), ensure_ascii=False)
  def canonical_json_bytes(event):
      return canonical_json(event).encode("utf-8")
  def compute_crc32(event):
      crc = zlib.crc32(canonical_json_bytes(event)) & 0xFFFFFFFF
      return f"{crc:08X}"
  def verify_crc32(event):
      crc = event.get("crc32")
      if not crc:
          return False
      try:
          return crc == compute_crc32(event)
      except Exception:
          return False
  \<close>
\<close>

definition canonical_json :: "dict \<Rightarrow> ustr" where
  "canonical_json event = json_dumps True (JObj (dict_set event (U ''crc32'') (JStr [])))"

definition canonical_json_bytes :: "dict \<Rightarrow> error + 8 word list" where
  "canonical_json_bytes event = utf8_encode (canonical_json event)"

definition compute_crc32 :: "dict \<Rightarrow> error + ustr" where
  "compute_crc32 event =
     (case canonical_json_bytes event of
        Inl e \<Rightarrow> Inl e
      | Inr bs \<Rightarrow> Inr (format_08X (zlib_crc32 bs AND 0xFFFFFFFF)))"

definition verify_crc32 :: "dict \<Rightarrow> bool" where
  "verify_crc32 event =
     (let crc = py_get event (U ''crc32'') in
      if \<not> truthy crc then False
      else (case compute_crc32 event of
              Inl e \<Rightarrow> False
            | Inr c \<Rightarrow> crc = JStr c))"

section \<open>State Manager (core/state_manager.py)\<close>

text \<open>
  The project directory holds three files that \<open>append_event\<close> touches:
  \<open>audit/events.ndjson\<close>, \<open>derived/idempotency-index.json\<close> and
  \<open>derived/sequence.json\<close>. Each line of the log is held as the JSON object it decodes
  to (what \<open>json.loads\<close> returns for the line \<open>json.dumps\<close> wrote); the two derived
  files are \<open>None\<close> while they do not exist. The advisory file lock serialises the
  calls and is not part of this sequential model.
\<close>

record store =
  events_file :: "dict list"
  id_index :: "(ustr \<times> int) list option"
  sequence_file :: "int option"

definition fresh_store :: store where
  "fresh_store = \<lparr>events_file = [], id_index = None, sequence_file = None\<rparr>"

definition load_idempotency_index :: "store \<Rightarrow> (ustr \<times> int) list" where
  "load_idempotency_index s = (case id_index s of None \<Rightarrow> [] | Some keys \<Rightarrow> keys)"

text \<open>
  The bytes of a log line, \<open>json.dumps(event, ensure_ascii=False, separators=(",", ":"))\<close>
  in UTF-8.
\<close>

definition line_bytes :: "dict \<Rightarrow> error + 8 word list" where
  "line_bytes event = utf8_encode (json_dumps False (JObj event))"

text \<open>
  \<open>_read_last_sequence\<close>: \<open>sequence.json\<close> when it exists; otherwise the
  \<open>sequenceNumber\<close> of the last line of the log, 0 when there is none or it cannot be
  read. The fallback reads the last 4096 bytes of the file only (the loop stops at the
  first chunk holding a newline, and the file ends with one), so a last line longer than
  4095 bytes is cut, fails to parse and gives 0.
\<close>

definition read_last_sequence :: "store \<Rightarrow> int" where
  "read_last_sequence s =
     (case sequence_file s of
        Some n \<Rightarrow> n
      | None \<Rightarrow>
          (if events_file s = [] then 0
           else (case line_bytes (last (events_file s)) of
                   Inl e \<Rightarrow> 0
                 | Inr bs \<Rightarrow>
                     if length bs \<le> 4095
                     then get_int (last (events_file s)) (U ''sequenceNumber'') 0
                     else 0)))"

text \<open>
  \<open>key in keys\<close>, where \<open>keys\<close> was loaded from JSON and so has string keys only: a
  list or an object is unhashable, any other non-string never matches.
\<close>

fun key_in_index :: "json \<Rightarrow> (ustr \<times> int) list \<Rightarrow> error + bool" where
  "key_in_index (JStr k) keys = Inr (has_key keys k)"
| "key_in_index (JArr xs) keys = Inl TypeError"
| "key_in_index (JObj kvs) keys = Inl TypeError"
| "key_in_index v keys = Inr False"

text \<open>The name under which \<open>json.dump\<close> writes a dictionary key of the index.\<close>

fun index_key :: "json \<Rightarrow> ustr" where
  "index_key (JStr k) = k"
| "index_key (JInt i) = py_str_int i"
| "index_key (JBool b) = (if b then U ''true'' else U ''false'')"
| "index_key v = U ''null''"

datatype append_result = Appended dict | Deduped

text \<open>
  \<^verbatim>\<open>
  def append_event(self, event):
      if "idempotencyKey" not in event:
          raise ValueError("idempotencyKey is required")
      with lock:
          keys = self._load_idempotency_index()
          key = event["idempotencyKey"]
          if key in keys:
              return {"status": "deduped", "event": None}
          seq = self._read_last_sequence() + 1
          event = {**event}
          event.setdefault("eventId", f"e-{uuid.uuid4().hex}")
          event.setdefault("schemaVersion", 1)
          event.setdefault("sequenceNumber", seq)
          event.setdefault("at", utc_now())
          event["crc32"] = compute_crc32(event)
          line = json.dumps(event, ensure_ascii=False, separators=(",", ":"))
          with open(self.events_path, "a", encoding="utf-8") as f:
              f.write(line + "\n"); f.flush(); os.fsync(f.fileno())
          keys[key] = seq
          self._save_idempotency_index(keys)
          self._write_sequence(seq)
          return {"status": "appended", "event": event}
  \<close>
  The fresh \<open>uuid4\<close> hex string and the clock reading \<open>utc_now()\<close> are inputs of the
  model; the four \<open>setdefault\<close> calls are \<open>fill_defaults\<close>. An exception leaves the files as they were: everything that can raise comes
  before the first write.
\<close>

definition fill_defaults :: "ustr \<Rightarrow> ustr \<Rightarrow> int \<Rightarrow> dict \<Rightarrow> dict" where
  "fill_defaults uuid_hex now seq event =
     (let event1 = setdefault event (U ''eventId'') (JStr (U ''e-'' @ uuid_hex));
          event2 = setdefault event1 (U ''schemaVersion'') (JInt 1);
          event3 = setdefault event2 (U ''sequenceNumber'') (JInt seq)
      in setdefault event3 (U ''at'') (JStr now))"

definition append_event ::
    "ustr \<Rightarrow> ustr \<Rightarrow> store \<Rightarrow> dict \<Rightarrow> error + (append_result \<times> store)" where
  "append_event uuid_hex now s event =
     (if \<not> has_key event (U ''idempotencyKey'') then Inl ValueError
      else
        let keys = load_idempotency_index s;
            key = py_get event (U ''idempotencyKey'')
        in (case key_in_index key keys of
              Inl e \<Rightarrow> Inl e
            | Inr dup \<Rightarrow>
                if dup then Inr (Deduped, s)
                else
                  let seq = read_last_sequence s + 1;
                      event4 = fill_defaults uuid_hex now seq event
                  in (case compute_crc32 event4 of
                        Inl e \<Rightarrow> Inl e
                      | Inr crc \<Rightarrow>
                          let event5 = dict_set event4 (U ''crc32'') (JStr crc)
                          in Inr (Appended event5,
                                  \<lparr>events_file = events_file s @ [event5],
                                   id_index = Some (dict_set keys (index_key key) seq),
                                   sequence_file = Some seq\<rparr>))))"

text \<open>
  A caller's sequence of \<open>append_event\<close> calls, each with its own fresh identifier and
  clock reading. A call that raises leaves the store as it was and the caller goes on.
\<close>

fun append_all :: "store \<Rightarrow> (ustr \<times> ustr \<times> dict) list \<Rightarrow> store" where
  "append_all s [] = s"
| "append_all s ((uuid_hex, now, event) # calls) =
     (case append_event uuid_hex now s event of
        Inl e \<Rightarrow> append_all s calls
      | Inr (r, s') \<Rightarrow> append_all s' calls)"

text \<open>The \<open>sequenceNumber\<close> fields of the persisted records, in file order.\<close>

definition seq_numbers :: "store \<Rightarrow> json list" where
  "seq_numbers s = map (\<lambda>e. py_get e (U ''sequenceNumber'')) (events_file s)"

section \<open>Reducer (core/reducer.py)\<close>

subsection \<open>Task state\<close>

record run_status =
  started :: bool
  completed :: bool
  verdict :: json
  aborted :: bool
  failed :: bool

definition RunStatus :: run_status where
  "RunStatus = \<lparr>started = False, completed = False, verdict = JNull, aborted = False, failed = False\<rparr>"

record task_state =
  task_id :: ustr
  state :: ustr
  gates :: "ustr set"
  run_id :: "ustr option"
  run_status :: run_status
  skill_decision :: dict
  policy_tier :: json
  last_evidence :: dict
  last_verdict :: dict
  result :: dict
  task_spec :: json

definition TaskState :: "ustr \<Rightarrow> task_state" where
  "TaskState tid =
     \<lparr>task_id = tid, state = U ''pending'', gates = {}, run_id = None, run_status = RunStatus,
      skill_decision = [], policy_tier = JNull, last_evidence = [], last_verdict = [],
      result = [], task_spec = JObj []\<rparr>"

definition apply_gate :: "task_state \<Rightarrow> ustr \<Rightarrow> bool \<Rightarrow> task_state" where
  "apply_gate task gate add =
     (if add then task\<lparr>gates := insert gate (gates task)\<rparr>
      else task\<lparr>gates := gates task - {gate}\<rparr>)"

text \<open>
  \<^verbatim>\<open>
  def recompute_state(task):
      verdict = task.run_status.verdict
      if verdict == "BLOCK" or task.run_status.failed:
          task.state = "blocked"; task.gates.clear(); return
      if task.run_status.aborted:
          task.state = "canceled"; task.gates.clear(); return
      if task.run_status.completed and verdict == "PASS":
          task.state = "done"
          task.result = {"quality": "clean", **task.result}
          task.gates.clear(); return
  \<close>
\<close>

definition recompute_state :: "task_state \<Rightarrow> task_state" where
  "recompute_state task =
     (let v = verdict (run_status task) in
      if v = JStr (U ''BLOCK'') \<or> failed (run_status task) then
        task\<lparr>state := U ''blocked'', gates := {}\<rparr>
      else if aborted (run_status task) then
        task\<lparr>state := U ''canceled'', gates := {}\<rparr>
      else if completed (run_status task) \<and> v = JStr (U ''PASS'') then
        task\<lparr>state := U ''done'',
             result := dict_merge [(U ''quality'', JStr (U ''clean''))] (result task),
             gates := {}\<rparr>
      else task)"

subsection \<open>Status and the state of the fold\<close>

record status =
  name :: ustr
  phase :: ustr
  halted :: bool
  mode :: ustr
  degradedReason :: "ustr option"
  progress_total :: nat
  progress_done :: nat
  progress_blocked :: nat
  lastHeartbeatAt :: json
  watchdog_state :: ustr
  tasks :: "dict list"
  risks :: "json list"
  alerts :: "json list"
  locks_project :: ustr
  locks_tasks :: "(ustr \<times> ustr option) list"
  updatedAt :: ustr

text \<open>\<open>build_base_status("unknown")\<close>; its \<open>updatedAt\<close> is the clock reading \<open>now\<close>.\<close>

definition build_base_status :: "ustr \<Rightarrow> ustr \<Rightarrow> status" where
  "build_base_status now project_name =
     \<lparr>name = project_name, phase = U ''running'', halted = False, mode = U ''normal'',
      degradedReason = None, progress_total = 0, progress_done = 0, progress_blocked = 0,
      lastHeartbeatAt = JNull, watchdog_state = U ''healthy'', tasks = [], risks = [],
      alerts = [], locks_project = U ''idle'', locks_tasks = [], updatedAt = now\<rparr>"

text \<open>
  The variables of \<open>reduce_events\<close> that the loop over the events updates: the status
  document, \<open>project_name\<close>, the table \<open>tasks\<close> (here \<open>task_states\<close>), \<open>open_runs\<close>,
  \<open>locks_project_running\<close> and \<open>seen_keys\<close>.
\<close>

record rstate =
  status :: status
  project_name :: "ustr option"
  task_states :: "(ustr \<times> task_state) list"
  open_runs :: "(ustr \<times> ustr option list) list"
  locks_project_running :: bool
  seen_keys :: "ustr set"

definition init_rstate :: "ustr \<Rightarrow> rstate" where
  "init_rstate now =
     \<lparr>status = build_base_status now (U ''unknown''), project_name = None, task_states = [],
      open_runs = [], locks_project_running = False, seen_keys = {}\<rparr>"

definition get_task :: "ustr \<Rightarrow> (ustr \<times> task_state) list \<Rightarrow> (ustr \<times> task_state) list" where
  "get_task tid ts = (if has_key ts tid then ts else ts @ [(tid, TaskState tid)])"

definition lookup_task :: "(ustr \<times> task_state) list \<Rightarrow> ustr \<Rightarrow> task_state" where
  "lookup_task ts tid = (case map_of ts tid of Some t \<Rightarrow> t | None \<Rightarrow> TaskState tid)"

definition get_list :: "dict \<Rightarrow> ustr \<Rightarrow> json list" where
  "get_list d k = (case map_of d k of Some (JArr xs) \<Rightarrow> xs | _ \<Rightarrow> [])"

subsection \<open>One event of the fold\<close>

text \<open>Lines 174 to 201: the project-level \<open>if\<close>/\<open>elif\<close> chain on the event type.\<close>

definition project_events :: "ustr option \<Rightarrow> rstate \<Rightarrow> rstate" where
  "project_events etype st =
     (if etype = Some (U ''TEAM_CREATED'') then st
      else if etype = Some (U ''PROJECT_STARTED'') then
        st\<lparr>locks_project_running := True, status := (status st)\<lparr>phase := U ''running''\<rparr>\<rparr>
      else if etype = Some (U ''PROJECT_FINISHED'') then
        st\<lparr>locks_project_running := False,
           status := (status st)\<lparr>phase := U ''finished'', halted := False\<rparr>\<rparr>
      else if etype = Some (U ''PROJECT_HALTED'') then
        st\<lparr>locks_project_running := False,
           status := (status st)\<lparr>halted := True, phase := U ''halted''\<rparr>\<rparr>
      else if etype = Some (U ''PROJECT_RESUMED'') then
        st\<lparr>locks_project_running := True,
           status := (status st)\<lparr>halted := False, phase := U ''running''\<rparr>\<rparr>
      else if etype = Some (U ''PROJECT_MODE_RESTORED'') then
        st\<lparr>status := (status st)\<lparr>mode := U ''normal'', degradedReason := None\<rparr>\<rparr>
      else if etype = Some (U ''WATCHDOG_UNRESPONSIVE'') then
        st\<lparr>status := (status st)\<lparr>mode := U ''degraded'',
             degradedReason := Some (U ''watchdog_unresponsive'')\<rparr>\<rparr>
      else if etype = Some (U ''VERDICT_TIMEOUT'') then
        st\<lparr>status := (status st)\<lparr>mode := U ''degraded'',
             degradedReason := Some (U ''verdict_timeout'')\<rparr>\<rparr>
      else if etype = Some (U ''RECOVERY_STARTED'') then
        st\<lparr>status := (status st)\<lparr>mode := U ''degraded'',
             degradedReason := Some (U ''recovery_in_progress'')\<rparr>\<rparr>
      else st)"

text \<open>Lines 203 to 207: the watchdog fields.\<close>

definition watchdog_events :: "ustr option \<Rightarrow> dict \<Rightarrow> rstate \<Rightarrow> rstate" where
  "watchdog_events etype event st =
     (if etype = Some (U ''WATCHDOG_HEARTBEAT'') then
        st\<lparr>status := (status st)\<lparr>lastHeartbeatAt := py_get event (U ''at''),
             watchdog_state := U ''healthy''\<rparr>\<rparr>
      else if etype = Some (U ''WATCHDOG_UNRESPONSIVE'') then
        st\<lparr>status := (status st)\<lparr>watchdog_state := U ''unresponsive''\<rparr>\<rparr>
      else st)"

text \<open>Lines 210 and 211: telemetry events are appended to \<open>risks\<close>.\<close>

definition telemetry_types :: "ustr list" where
  "telemetry_types = [U ''MESSAGE_IGNORED'', U ''WATCHDOG_UNRESPONSIVE'', U ''VERDICT_TIMEOUT'',
     U ''LOCK_TIMEOUT_DETECTED'', U ''CORRUPTED_LINE_DETECTED'']"

definition telemetry_events :: "ustr option \<Rightarrow> dict \<Rightarrow> dict \<Rightarrow> rstate \<Rightarrow> rstate" where
  "telemetry_events etype event payload st =
     (case etype of
        None \<Rightarrow> st
      | Some t \<Rightarrow>
          if t \<in> set telemetry_types then
            st\<lparr>status := (status st)\<lparr>risks := risks (status st) @
                 [JObj [(U ''type'', JStr t), (U ''eventId'', py_get event (U ''eventId'')),
                        (U ''payload'', JObj payload)]]\<rparr>\<rparr>
          else st)"

definition run_bound_types :: "ustr list" where
  "run_bound_types = [U ''WORKER_RUN_STARTED'', U ''WORKER_RUN_COMPLETED'', U ''WORKER_RUN_FAILED'',
     U ''WORKER_RUN_ABORTED'', U ''EVIDENCE_SUBMITTED'', U ''WATCHDOG_VERDICT'', U ''HUMAN_VERDICT'']"

text \<open>
  \<open>TASKSPEC_PUBLISHED\<close> with a \<open>tasks\<close> array, one element:
  \<^verbatim>\<open>
  tid = spec.get("taskId") or task_id
  t = get_task(tid)
  t.state = "pending"
  apply_gate(t, "awaiting_skill_decision", True)
  t.task_spec = spec
  \<close>
\<close>

definition spec_task_id :: "json \<Rightarrow> ustr option" where
  "spec_task_id spec = (case spec of JObj d \<Rightarrow> get_str d (U ''taskId'') | _ \<Rightarrow> None)"

definition publish_spec ::
    "ustr \<Rightarrow> (ustr \<times> task_state) list \<Rightarrow> json \<Rightarrow> (ustr \<times> task_state) list" where
  "publish_spec event_tid ts spec =
     (let tid = (if str_truthy (spec_task_id spec) then the (spec_task_id spec) else event_tid);
          ts1 = get_task tid ts;
          t = lookup_task ts1 tid
      in dict_set ts1 tid
           ((apply_gate (t\<lparr>state := U ''pending''\<rparr>) (U ''awaiting_skill_decision'') True)
              \<lparr>task_spec := spec\<rparr>))"

text \<open>
  The writes of the task-level chain: storing a task entry, the \<open>tasks[]\<close> array of a
  \<open>TASKSPEC_PUBLISHED\<close>, \<open>open_runs.setdefault(task_id, []).append(run_id)\<close>, the release
  of a run by \<open>RUN_CLOSED\<close>, and an alert.
\<close>

definition put_task :: "ustr \<Rightarrow> task_state \<Rightarrow> rstate \<Rightarrow> rstate" where
  "put_task tid t st = st\<lparr>task_states := dict_set (task_states st) tid t\<rparr>"

definition publish_specs :: "ustr \<Rightarrow> json list \<Rightarrow> rstate \<Rightarrow> rstate" where
  "publish_specs tid specs st = st\<lparr>task_states := foldl (publish_spec tid) (task_states st) specs\<rparr>"

definition open_run :: "ustr \<Rightarrow> ustr option \<Rightarrow> rstate \<Rightarrow> rstate" where
  "open_run tid rid st =
     st\<lparr>open_runs := (case map_of (open_runs st) tid of
                         None \<Rightarrow> open_runs st @ [(tid, [rid])]
                       | Some rs \<Rightarrow> dict_set (open_runs st) tid (rs @ [rid]))\<rparr>"

definition close_run :: "ustr \<Rightarrow> ustr option \<Rightarrow> rstate \<Rightarrow> rstate" where
  "close_run tid rid st =
     (case map_of (open_runs st) tid of
        None \<Rightarrow> st
      | Some rs \<Rightarrow>
          if rid \<in> set rs then
            (let rs' = filter (\<lambda>r. r \<noteq> rid) rs in
             if rs' = [] then st\<lparr>open_runs := filter (\<lambda>p. fst p \<noteq> tid) (open_runs st)\<rparr>
             else st\<lparr>open_runs := dict_set (open_runs st) tid rs'\<rparr>)
          else st)"

definition add_alert :: "json \<Rightarrow> rstate \<Rightarrow> rstate" where
  "add_alert a st = st\<lparr>status := (status st)\<lparr>alerts := alerts (status st) @ [a]\<rparr>\<rparr>"

text \<open>
  Lines 228 to 310: the task-level chain, for an event that was not skipped. \<open>task\<close> is
  the entry of \<open>task_id\<close> in the table (created by \<open>get_task\<close> before the chain).
\<close>

definition task_events ::
    "ustr option \<Rightarrow> ustr \<Rightarrow> ustr option \<Rightarrow> dict \<Rightarrow> rstate \<Rightarrow> rstate" where
  "task_events etype tid rid payload st =
     (let task = lookup_task (task_states st) tid in
      if etype = Some (U ''TASKSPEC_PUBLISHED'') then
        (let specs = get_list payload (U ''tasks'') in
         if specs \<noteq> [] then publish_specs tid specs st
         else put_task tid
                ((apply_gate (task\<lparr>state := U ''pending''\<rparr>) (U ''awaiting_skill_decision'') True)
                   \<lparr>task_spec := JObj payload\<rparr>) st)
      else if etype = Some (U ''TASK_SKILL_SET'') then
        put_task tid
          ((apply_gate task (U ''awaiting_skill_decision'') False)
             \<lparr>skill_decision := [(U ''chosenSkill'', py_get payload (U ''chosenSkill'')),
                                 (U ''decisionSeq'', py_get payload (U ''decisionSeq''))]\<rparr>) st
      else if etype = Some (U ''POLICY_TIER_REQUESTED'') then
        put_task tid (apply_gate task (U ''awaiting_policy_approval'') True) st
      else if etype = Some (U ''POLICY_TIER_APPROVED'') then
        put_task tid
          ((apply_gate task (U ''awaiting_policy_approval'') False)
             \<lparr>policy_tier := py_get payload (U ''tier'')\<rparr>) st
      else if etype = Some (U ''VERDICT_TIMEOUT'') then
        put_task tid (apply_gate task (U ''needs_human_review'') True) st
      else if etype = Some (U ''WORKER_RUN_INTENT'') then
        (let task1 = (if run_id task \<noteq> rid
                      then task\<lparr>run_status := RunStatus, last_evidence := [], last_verdict := [],
                                result := []\<rparr>
                      else task)
         in open_run tid rid (put_task tid (task1\<lparr>state := U ''assigned'', run_id := rid\<rparr>) st))
      else if etype = Some (U ''WORKER_RUN_STARTED'') then
        put_task tid
          (task\<lparr>state := U ''running'', run_id := rid,
                run_status := (run_status task)\<lparr>started := True\<rparr>\<rparr>) st
      else if etype = Some (U ''WORKER_RUN_COMPLETED'') then
        put_task tid
          (recompute_state (task\<lparr>run_status := (run_status task)\<lparr>completed := True\<rparr>,
                                 run_id := rid\<rparr>)) st
      else if etype = Some (U ''WORKER_RUN_FAILED'') then
        (let task1 = task\<lparr>run_status := (run_status task)\<lparr>failed := True\<rparr>, run_id := rid\<rparr>;
             reason = py_or (py_or (py_get payload (U ''reason'')) (py_get payload (U ''error'')))
                        (py_get payload (U ''message''))
         in put_task tid
              (recompute_state
                 (if truthy reason
                  then task1\<lparr>result := dict_merge [(U ''failureReason'', reason)] (result task1)\<rparr>
                  else task1)) st)
      else if etype = Some (U ''WORKER_RUN_ABORTED'') then
        put_task tid
          (recompute_state (task\<lparr>run_status := (run_status task)\<lparr>aborted := True\<rparr>,
                                 run_id := rid\<rparr>)) st
      else if etype = Some (U ''EVIDENCE_SUBMITTED'') then
        put_task tid ((apply_gate task (U ''awaiting_verdict'') True)\<lparr>last_evidence := payload\<rparr>) st
      else if etype = Some (U ''WATCHDOG_VERDICT'') then
        (let v = py_get payload (U ''verdict'');
             task1 = apply_gate (task\<lparr>run_status := (run_status task)\<lparr>verdict := v\<rparr>,
                                      last_verdict := payload\<rparr>) (U ''awaiting_verdict'') False
         in if v = JStr (U ''WARN'') then
              put_task tid (recompute_state (apply_gate task1 (U ''needs_human_review'') True)) st
            else if v = JStr (U ''BLOCK'') then
              put_task tid (recompute_state (task1\<lparr>state := U ''blocked'', gates := {}\<rparr>))
                (add_alert (JObj [(U ''type'', JStr (U ''blocked'')), (U ''taskId'', JStr tid),
                                  (U ''runId'', opt_json rid)]) st)
            else put_task tid (recompute_state task1) st)
      else if etype = Some (U ''HUMAN_VERDICT'') then
        (let v = py_get payload (U ''verdict'');
             task1 = task\<lparr>run_status := (run_status task)\<lparr>verdict := v\<rparr>, last_verdict := payload\<rparr>
         in if v = JStr (U ''PASS'') then
              put_task tid
                (recompute_state ((apply_gate task1 (U ''needs_human_review'') False)
                   \<lparr>result := dict_merge [(U ''quality'', JStr (U ''warn_override''))] (result task1)\<rparr>)) st
            else if v = JStr (U ''BLOCK'') then
              put_task tid (recompute_state (task1\<lparr>state := U ''blocked'', gates := {}\<rparr>)) st
            else put_task tid (recompute_state task1) st)
      else if etype = Some (U ''RUN_CLOSED'') then close_run tid rid st
      else st)"

text \<open>
  Lines 159 to 227: the head of the loop body, in the order of the source.
  \<^verbatim>\<open>
  key = event.get("idempotencyKey")
  if key:
      if key in seen_keys:
          continue
      seen_keys.add(key)
  etype = event.get("type")
  project_name = event.get("project") or project_name or "unknown"
  status["project"]["name"] = project_name
  task_id = event.get("taskId"); run_id = event.get("runId")
  payload = event.get("payload", {}) or {}
  ... project, watchdog and telemetry parts ...
  if not task_id:
      continue
  task = get_task(task_id)
  if etype in run_bound_types and task.run_id and run_id and run_id != task.run_id:
      continue
  ... task-level chain ...
  \<close>
\<close>

definition seen_before :: "rstate \<Rightarrow> dict \<Rightarrow> bool" where
  "seen_before st event =
     (case get_str event (U ''idempotencyKey'') of
        None \<Rightarrow> False
      | Some key \<Rightarrow> key \<noteq> [] \<and> key \<in> seen_keys st)"

definition mark_seen :: "dict \<Rightarrow> rstate \<Rightarrow> rstate" where
  "mark_seen event st =
     (case get_str event (U ''idempotencyKey'') of
        None \<Rightarrow> st
      | Some key \<Rightarrow> if key \<noteq> [] then st\<lparr>seen_keys := insert key (seen_keys st)\<rparr> else st)"

definition name_step :: "dict \<Rightarrow> rstate \<Rightarrow> rstate" where
  "name_step event st =
     (let pname = (if str_truthy (get_str event (U ''project'')) then the (get_str event (U ''project''))
                   else if str_truthy (project_name st) then the (project_name st)
                   else U ''unknown'')
      in st\<lparr>project_name := Some pname, status := (status st)\<lparr>name := pname\<rparr>\<rparr>)"

definition project_part :: "dict \<Rightarrow> rstate \<Rightarrow> rstate" where
  "project_part event st =
     (let etype = get_str event (U ''type'');
          payload = get_dict event (U ''payload'')
      in telemetry_events etype event payload
           (watchdog_events etype event (project_events etype st)))"

text \<open>The guard that skips a run-bound event of another run, and the task part.\<close>

definition other_run :: "ustr option \<Rightarrow> ustr option \<Rightarrow> task_state \<Rightarrow> bool" where
  "other_run etype rid task =
     (etype \<in> Some ` set run_bound_types \<and> str_truthy (run_id task) \<and> str_truthy rid
      \<and> rid \<noteq> run_id task)"

definition ensure_task :: "ustr \<Rightarrow> rstate \<Rightarrow> rstate" where
  "ensure_task tid st = st\<lparr>task_states := get_task tid (task_states st)\<rparr>"

definition task_part :: "dict \<Rightarrow> rstate \<Rightarrow> rstate" where
  "task_part event st =
     (let etype = get_str event (U ''type'');
          tid_opt = get_str event (U ''taskId'');
          rid = get_str event (U ''runId'');
          payload = get_dict event (U ''payload'')
      in if \<not> str_truthy tid_opt then st
         else
           let tid = the tid_opt;
               st4 = ensure_task tid st;
               task = lookup_task (task_states st4) tid
           in if other_run etype rid task then st4
              else task_events etype tid rid payload st4)"

definition reduce_step :: "rstate \<Rightarrow> dict \<Rightarrow> rstate" where
  "reduce_step st event =
     (if seen_before st event then st
      else task_part event (project_part event (name_step event (mark_seen event st))))"

subsection \<open>After the fold\<close>

text \<open>Lines 312 to 317: under \<open>watchdog_unresponsive\<close>, every task that is not terminal
  and still awaits a verdict needs a human review.\<close>

definition degraded_gate :: "task_state \<Rightarrow> task_state" where
  "degraded_gate task =
     (if state task \<in> {U ''done'', U ''blocked'', U ''canceled''} then task
      else if U ''awaiting_verdict'' \<in> gates task
        then apply_gate task (U ''needs_human_review'') True
      else task)"

definition post_fold :: "rstate \<Rightarrow> rstate" where
  "post_fold st =
     (if degradedReason (status st) = Some (U ''watchdog_unresponsive'')
      then st\<lparr>task_states := map (\<lambda>(tid, t). (tid, degraded_gate t)) (task_states st)\<rparr>
      else st)"

text \<open>Lines 320 to 330: the locks. A task with exactly one open run is locked by it;
  any other count degrades the project and raises an alert.\<close>

definition lock_step :: "status \<Rightarrow> ustr \<times> ustr option list \<Rightarrow> status" where
  "lock_step s entry =
     (case entry of (tid, run_ids) \<Rightarrow>
        if length run_ids = 1 then s\<lparr>locks_tasks := dict_set (locks_tasks s) tid (hd run_ids)\<rparr>
        else s\<lparr>mode := U ''degraded'', degradedReason := Some (U ''multiple_open_runs''),
               alerts := alerts s @
                 [JObj [(U ''type'', JStr (U ''multiple_open_runs'')), (U ''taskId'', JStr tid),
                        (U ''runIds'', JArr (map opt_json run_ids))]]\<rparr>)"

definition derive_locks :: "rstate \<Rightarrow> status" where
  "derive_locks st =
     foldl lock_step
       ((status st)\<lparr>locks_project :=
            (if locks_project_running st \<and> \<not> halted (status st) then U ''running'' else U ''idle''),
          locks_tasks := []\<rparr>)
       (open_runs st)"

text \<open>Lines 333 to 368: the task list (a done task is written in the short form, without
  \<open>state\<close>) and the progress counters.\<close>

definition dict_or_none :: "json \<Rightarrow> json" where
  "dict_or_none v = (if truthy v then v else JNull)"

definition task_out :: "task_state \<Rightarrow> dict" where
  "task_out task =
     (if state task = U ''done'' then
        [(U ''taskId'', JStr (task_id task)),
         (U ''resultSummary'', py_get (result task) (U ''summary'')),
         (U ''evidencePath'', py_get (last_evidence task) (U ''evidencePath'')),
         (U ''lastRunId'', opt_json (run_id task)),
         (U ''taskSpec'', dict_or_none (task_spec task))]
      else
        [(U ''taskId'', JStr (task_id task)),
         (U ''state'', JStr (state task)),
         (U ''gates'', JArr (map JStr (sorted_list_of_set (gates task)))),
         (U ''runId'', opt_json (run_id task)),
         (U ''skillDecision'', JObj (skill_decision task)),
         (U ''policyTier'', policy_tier task),
         (U ''lastEvidence'', JObj (last_evidence task)),
         (U ''lastVerdict'', JObj (last_verdict task)),
         (U ''result'', JObj (result task)),
         (U ''taskSpec'', dict_or_none (task_spec task))])"

text \<open>
  A corrupted line as \<open>read_events\<close> describes it: line number, reason and the line. The
  hash of the raw text of a line (\<open>sha256_hex(c["raw"])\<close>) is a parameter.
\<close>

type_synonym corrupted = "nat \<times> ustr \<times> dict"

definition corrupted_alert :: "(dict \<Rightarrow> ustr) \<Rightarrow> corrupted \<Rightarrow> json" where
  "corrupted_alert line_hash c =
     (case c of (line, reason, raw) \<Rightarrow>
        JObj [(U ''type'', JStr (U ''corrupted_line'')), (U ''line'', JInt (int line)),
              (U ''reason'', JStr reason), (U ''hash'', JStr (line_hash raw))])"

definition finalize :: "ustr \<Rightarrow> (dict \<Rightarrow> ustr) \<Rightarrow> corrupted list \<Rightarrow> rstate \<Rightarrow> status" where
  "finalize now line_hash corrupted st =
     (let st1 = post_fold st;
          s1 = derive_locks st1;
          ts = map snd (task_states st1);
          s2 = s1\<lparr>tasks := map task_out ts,
                  progress_total := length ts,
                  progress_done := length (filter (\<lambda>t. state t = U ''done'') ts),
                  progress_blocked := length (filter (\<lambda>t. state t = U ''blocked'') ts),
                  updatedAt := now\<rparr>
      in s2\<lparr>alerts := alerts s2 @ map (corrupted_alert line_hash) corrupted\<rparr>)"

subsection \<open>\<open>read_events\<close> and \<open>reduce_events\<close>\<close>

text \<open>
  \<open>read_events\<close> numbers the lines from 1 and keeps those whose CRC verifies; the others
  are reported as corrupted. (Every line of the model decodes; a line that is not JSON is
  outside it.)
\<close>

fun read_events_from :: "nat \<Rightarrow> dict list \<Rightarrow> dict list \<times> corrupted list" where
  "read_events_from idx [] = ([], [])"
| "read_events_from idx (event # rest) =
     (case read_events_from (Suc idx) rest of (events, corrupted) \<Rightarrow>
        if verify_crc32 event then (event # events, corrupted)
        else (events, (idx, U ''crc_mismatch'', event) # corrupted))"

definition read_events :: "dict list \<Rightarrow> dict list \<times> corrupted list" where
  "read_events file_lines = read_events_from 1 file_lines"

text \<open>The sort key \<open>(int(e.get("sequenceNumber", 0)), e.get("eventId", ""))\<close>; Python's
  \<open>list.sort\<close> is stable, as \<open>sort_key\<close> is.\<close>

definition event_sort_key :: "dict \<Rightarrow> int \<times> ustr" where
  "event_sort_key e =
     (get_int e (U ''sequenceNumber'') 0,
      case get_str e (U ''eventId'') of None \<Rightarrow> [] | Some i \<Rightarrow> i)"

definition fold_events :: "ustr \<Rightarrow> dict list \<Rightarrow> rstate" where
  "fold_events now events = foldl reduce_step (init_rstate now) events"

text \<open>
  The reducer on the output of \<open>read_events\<close>: sort, fold, finish. \<open>now\<close> is the reading of
  the clock (\<open>utc_now()\<close>) that becomes \<open>updatedAt\<close>. The derived files written when
  \<open>emit_derived\<close> is set are projections of the result and are left out.
\<close>

definition reduce_stream :: "ustr \<Rightarrow> (dict \<Rightarrow> ustr) \<Rightarrow> dict list \<Rightarrow> corrupted list \<Rightarrow> status" where
  "reduce_stream now line_hash events corrupted =
     finalize now line_hash corrupted (fold_events now (sort_key event_sort_key events))"

definition reduce_events :: "ustr \<Rightarrow> (dict \<Rightarrow> ustr) \<Rightarrow> dict list \<Rightarrow> status" where
  "reduce_events now line_hash file_lines =
     (case read_events file_lines of (events, corrupted) \<Rightarrow>
        reduce_stream now line_hash events corrupted)"

section \<open>Orchestrator (core/orchestrator.py)\<close>

text \<open>
  What an \<open>Orchestrator\<close> object holds or reads from the outside world: the project name
  and the session label of \<open>team.json\<close>, the configuration, the clock (\<open>_now()\<close> in
  microseconds since the epoch, \<open>utc_now()\<close> as text), \<open>strptime\<close> and \<open>strftime\<close> for
  \<open>ISO_FORMAT\<close>, SHA-256, \<open>str()\<close> of a value, and the supply of fresh \<open>uuid4\<close> strings
  (indexed by the length of the log, so that each append gets its own).
\<close>

record ctx =
  project :: ustr
  session_label :: "ustr option"
  heartbeat_timeout_sec :: int
  now_us :: int
  utc_now :: ustr
  parse_time :: "ustr \<Rightarrow> int option"
  strftime :: "int \<Rightarrow> ustr"
  sha256_hex :: "8 word list \<Rightarrow> ustr"
  py_str :: "json \<Rightarrow> ustr"
  uuid4_hex :: "nat \<Rightarrow> ustr"
  line_sha256 :: "dict \<Rightarrow> ustr"

text \<open>
  The outcome of a method that appends events: the store it leaves behind, and the
  exception it raised, if any. Events appended before an exception stay in the log.
\<close>

type_synonym outcome = "error option \<times> store"

definition sm_append :: "ctx \<Rightarrow> store \<Rightarrow> dict \<Rightarrow> outcome" where
  "sm_append c s event =
     (case append_event (uuid4_hex c (length (events_file s))) (utc_now c) s event of
        Inl e \<Rightarrow> (Some e, s)
      | Inr (r, s') \<Rightarrow> (None, s'))"

subsection \<open>\<open>_build_event\<close>\<close>

text \<open>
  \<^verbatim>\<open>
  def _build_event(self, *, etype, task_id, run_id_str, payload,
                   idempotency_key, causation_id=None) -> dict:
      event = {"type": etype, "actor": "orchestrator", "project": self.project,
               "payload": payload, "idempotencyKey": idempotency_key}
      if task_id: event["taskId"] = task_id
      if run_id_str:
          event["runId"] = run_id_str
          event["correlationId"] = run_id_str
      if self.session_label: event["sessionLabel"] = self.session_label
      if causation_id: event["causationId"] = causation_id
      return event
  \<close>
  All parameters are keyword-only. A call is modelled with the keyword arguments it
  passes: Python raises \<open>TypeError\<close> for a keyword that is not a parameter and for a
  required parameter that is not passed, before the body runs.
\<close>

definition build_event_params :: "string list" where
  "build_event_params = [''etype'', ''task_id'', ''run_id_str'', ''payload'', ''idempotency_key'',
     ''causation_id'']"

definition build_event_required :: "string list" where
  "build_event_required = [''etype'', ''task_id'', ''run_id_str'', ''payload'', ''idempotency_key'']"

definition kwarg :: "(string \<times> json) list \<Rightarrow> string \<Rightarrow> json" where
  "kwarg kwargs n = (case map_of kwargs n of None \<Rightarrow> JNull | Some v \<Rightarrow> v)"

definition build_event :: "ctx \<Rightarrow> (string \<times> json) list \<Rightarrow> error + dict" where
  "build_event c kwargs =
     (if \<exists>n \<in> set (map fst kwargs). n \<notin> set build_event_params then Inl TypeError
      else if \<exists>n \<in> set build_event_required. \<not> has_key kwargs n then Inl TypeError
      else
        let event0 = [(U ''type'', kwarg kwargs ''etype''),
                      (U ''actor'', JStr (U ''orchestrator'')),
                      (U ''project'', JStr (project c)),
                      (U ''payload'', kwarg kwargs ''payload''),
                      (U ''idempotencyKey'', kwarg kwargs ''idempotency_key'')];
            event1 = (if truthy (kwarg kwargs ''task_id'')
                      then dict_set event0 (U ''taskId'') (kwarg kwargs ''task_id'') else event0);
            event2 = (if truthy (kwarg kwargs ''run_id_str'')
                      then dict_set (dict_set event1 (U ''runId'') (kwarg kwargs ''run_id_str''))
                             (U ''correlationId'') (kwarg kwargs ''run_id_str'')
                      else event1);
            event3 = (if str_truthy (session_label c)
                      then dict_set event2 (U ''sessionLabel'') (opt_json (session_label c))
                      else event2);
            event4 = (if truthy (kwarg kwargs ''causation_id'')
                      then dict_set event3 (U ''causationId'') (kwarg kwargs ''causation_id'')
                      else event3)
        in Inr event4)"

definition build_and_append :: "ctx \<Rightarrow> store \<Rightarrow> (string \<times> json) list \<Rightarrow> outcome" where
  "build_and_append c s kwargs =
     (case build_event c kwargs of Inl e \<Rightarrow> (Some e, s) | Inr event \<Rightarrow> sm_append c s event)"

subsection \<open>\<open>_event_index\<close>\<close>

record event_index =
  halted_by_verdict :: "ustr set"
  aborted_set :: "(ustr option \<times> ustr option) set"
  closed_set :: "(ustr option \<times> ustr option) set"
  last_heartbeat_at :: "int option"
  last_project_started_at :: "int option"
  last_project_resumed_at :: "int option"
  last_project_halted_at :: "int option"
  last_project_finished_at :: "int option"

text \<open>\<open>_parse_time(ev.get("at"))\<close>: \<open>None\<close> for a missing or empty value and when
  \<open>strptime\<close> fails.\<close>

definition parse_at :: "ctx \<Rightarrow> dict \<Rightarrow> int option" where
  "parse_at c ev =
     (case get_str ev (U ''at'') of
        None \<Rightarrow> None
      | Some v \<Rightarrow> if v = [] then None else parse_time c v)"

text \<open>\<open>if ts and (last is None or ts > last): last = ts\<close>\<close>

definition latest :: "int option \<Rightarrow> int option \<Rightarrow> int option" where
  "latest ts last_seen =
     (case ts of
        None \<Rightarrow> last_seen
      | Some t \<Rightarrow> (case last_seen of
                    None \<Rightarrow> Some t
                  | Some l \<Rightarrow> if t > l then Some t else last_seen))"

definition index_step :: "ctx \<Rightarrow> event_index \<Rightarrow> dict \<Rightarrow> event_index" where
  "index_step c idx ev =
     (let etype = get_str ev (U ''type''); ts = parse_at c ev in
      if etype = Some (U ''PROJECT_HALTED'') then
        (let verdict_id = (if str_truthy (get_str ev (U ''causationId''))
                           then get_str ev (U ''causationId'')
                           else get_str (get_dict ev (U ''payload'')) (U ''verdictEventId''));
             idx1 = (if str_truthy verdict_id
                     then idx\<lparr>halted_by_verdict := insert (the verdict_id) (halted_by_verdict idx)\<rparr>
                     else idx)
         in idx1\<lparr>last_project_halted_at := latest ts (last_project_halted_at idx1)\<rparr>)
      else if etype = Some (U ''WORKER_RUN_ABORTED'') then
        idx\<lparr>aborted_set := insert (get_str ev (U ''taskId''), get_str ev (U ''runId'')) (aborted_set idx)\<rparr>
      else if etype = Some (U ''RUN_CLOSED'') then
        idx\<lparr>closed_set := insert (get_str ev (U ''taskId''), get_str ev (U ''runId'')) (closed_set idx)\<rparr>
      else if etype = Some (U ''WATCHDOG_HEARTBEAT'') then
        idx\<lparr>last_heartbeat_at := latest ts (last_heartbeat_at idx)\<rparr>
      else if etype = Some (U ''PROJECT_STARTED'') then
        idx\<lparr>last_project_started_at := latest ts (last_project_started_at idx)\<rparr>
      else if etype = Some (U ''PROJECT_RESUMED'') then
        idx\<lparr>last_project_resumed_at := latest ts (last_project_resumed_at idx)\<rparr>
      else if etype = Some (U ''PROJECT_FINISHED'') then
        idx\<lparr>last_project_finished_at := latest ts (last_project_finished_at idx)\<rparr>
      else idx)"

definition event_index :: "ctx \<Rightarrow> dict list \<Rightarrow> event_index" where
  "event_index c events =
     foldl (index_step c)
       \<lparr>halted_by_verdict = {}, aborted_set = {}, closed_set = {}, last_heartbeat_at = None,
        last_project_started_at = None, last_project_resumed_at = None,
        last_project_halted_at = None, last_project_finished_at = None\<rparr>
       events"

subsection \<open>\<open>_enforce_block_sequence\<close>\<close>

text \<open>
  \<^verbatim>\<open>
  def _enforce_block_sequence(self, events):
      halted_by_verdict, aborted, closed, _ = self._event_index(events)
      for ev in events:
          if ev.get("type") != "WATCHDOG_VERDICT": continue
          payload = ev.get("payload", {}) or {}
          if payload.get("verdict") != "BLOCK": continue
          verdict_id = ev.get("eventId")
          task_id = ev.get("taskId")
          run_id_val = ev.get("runId")
          if not verdict_id or not task_id or not run_id:
              continue
          if verdict_id not in halted_by_verdict:
              halt_event = self._build_event(etype="PROJECT_HALTED", task_id=task_id,
                  run_id_str=run_id_val,
                  payload={"haltReason": "blocked_by_watchdog", "verdictEventId": verdict_id},
                  causation_id=verdict_id,
                  idempotency_key=f"{self.project}:{task_id}:{run_id}:PROJECT_HALTED:{verdict_id}")
              self.sm.append_event(halt_event)
          if (task_id, run_id_val) not in aborted:
              abort_event = self._build_event(etype="WORKER_RUN_ABORTED", ...,
                  payload={"reason": "blocked_by_watchdog"}, causation_id=verdict_id,
                  idempotency_key=f"{self.project}:{task_id}:{run_id}:WORKER_RUN_ABORTED")
              self.sm.append_event(abort_event)
          if (task_id, run_id_val) not in closed:
              close_event = self._build_event(etype="RUN_CLOSED", ...,
                  payload={"closeReason": "blocked_by_watchdog", "verdictEventId": verdict_id},
                  causation_id=verdict_id,
                  idempotency_key=f"{self.project}:{task_id}:{run_id_val}:RUN_CLOSED")
              self.sm.append_event(close_event)
  \<close>
  The method binds \<open>run_id_val\<close> but reads \<open>run_id\<close> in the guard and in two keys. It has
  no local of that name, and the module has no global of that name either: its only
  import from \<open>ids\<close> is \<open>from .ids import run_id as run_id_gen\<close>. Reading the name
  raises \<open>NameError\<close>.
\<close>

definition global_run_id :: "error + json" where
  "global_run_id = Inl NameError"

definition block_appends ::
    "ctx \<Rightarrow> event_index \<Rightarrow> ustr \<Rightarrow> ustr \<Rightarrow> ustr option \<Rightarrow> json \<Rightarrow> store \<Rightarrow> outcome" where
  "block_appends c idx verdict_id tid run_id_val run_id_g s =
     (let o1 =
        (if verdict_id \<notin> halted_by_verdict idx then
           build_and_append c s
             [(''etype'', JStr (U ''PROJECT_HALTED'')), (''task_id'', JStr tid),
              (''run_id_str'', opt_json run_id_val),
              (''payload'', JObj [(U ''haltReason'', JStr (U ''blocked_by_watchdog'')),
                                  (U ''verdictEventId'', JStr verdict_id)]),
              (''causation_id'', JStr verdict_id),
              (''idempotency_key'', JStr (project c @ U '':'' @ tid @ U '':'' @ py_str c run_id_g
                                         @ U '':PROJECT_HALTED:'' @ verdict_id))]
         else (None, s))
      in case o1 of
           (Some e, s1) \<Rightarrow> (Some e, s1)
         | (None, s1) \<Rightarrow>
             (let o2 =
                (if (Some tid, run_id_val) \<notin> aborted_set idx then
                   build_and_append c s1
                     [(''etype'', JStr (U ''WORKER_RUN_ABORTED'')), (''task_id'', JStr tid),
                      (''run_id_str'', opt_json run_id_val),
                      (''payload'', JObj [(U ''reason'', JStr (U ''blocked_by_watchdog''))]),
                      (''causation_id'', JStr verdict_id),
                      (''idempotency_key'', JStr (project c @ U '':'' @ tid @ U '':''
                                                 @ py_str c run_id_g @ U '':WORKER_RUN_ABORTED''))]
                 else (None, s1))
              in case o2 of
                   (Some e, s2) \<Rightarrow> (Some e, s2)
                 | (None, s2) \<Rightarrow>
                     (if (Some tid, run_id_val) \<notin> closed_set idx then
                        build_and_append c s2
                          [(''etype'', JStr (U ''RUN_CLOSED'')), (''task_id'', JStr tid),
                           (''run_id_str'', opt_json run_id_val),
                           (''payload'', JObj [(U ''closeReason'', JStr (U ''blocked_by_watchdog'')),
                                               (U ''verdictEventId'', JStr verdict_id)]),
                           (''causation_id'', JStr verdict_id),
                           (''idempotency_key'', JStr (project c @ U '':'' @ tid @ U '':''
                                                      @ fmt_opt run_id_val @ U '':RUN_CLOSED''))]
                      else (None, s2))))"

fun enforce_block_loop :: "ctx \<Rightarrow> event_index \<Rightarrow> dict list \<Rightarrow> store \<Rightarrow> outcome" where
  "enforce_block_loop c idx [] s = (None, s)"
| "enforce_block_loop c idx (ev # evs) s =
     (if get_str ev (U ''type'') \<noteq> Some (U ''WATCHDOG_VERDICT'') then enforce_block_loop c idx evs s
      else if py_get (get_dict ev (U ''payload'')) (U ''verdict'') \<noteq> JStr (U ''BLOCK'')
        then enforce_block_loop c idx evs s
      else if \<not> str_truthy (get_str ev (U ''eventId'')) \<or> \<not> str_truthy (get_str ev (U ''taskId''))
        then enforce_block_loop c idx evs s
      else
        (case global_run_id of
           Inl e \<Rightarrow> (Some e, s)
         | Inr run_id_g \<Rightarrow>
             if \<not> truthy run_id_g then enforce_block_loop c idx evs s
             else
               (case block_appends c idx (the (get_str ev (U ''eventId'')))
                       (the (get_str ev (U ''taskId''))) (get_str ev (U ''runId'')) run_id_g s of
                  (Some e, s') \<Rightarrow> (Some e, s')
                | (None, s') \<Rightarrow> enforce_block_loop c idx evs s')))"

definition enforce_block_sequence :: "ctx \<Rightarrow> dict list \<Rightarrow> store \<Rightarrow> outcome" where
  "enforce_block_sequence c events s = enforce_block_loop c (event_index c events) events s"

subsection \<open>\<open>_watchdog_heartbeat\<close>\<close>

text \<open>
  \<^verbatim>\<open>
  def _watchdog_heartbeat(self, events):
      _, _, _, info = self._event_index(events)
      ...
      if last_finished and (not last_started or last_finished > last_started): return
      if last_halted and (not last_resumed or last_halted > last_resumed): return
      if not last_heartbeat: return
      now = self._now()
      delta = (now - last_heartbeat).total_seconds()
      if delta < self.config.heartbeat_timeout_sec: return
      window = int(now.timestamp() // self.config.heartbeat_timeout_sec)
      idempotency_key = f"{self.project}:WATCHDOG_UNRESPONSIVE:{window}"
      unresp_event = self._build_event(
          etype="WATCHDOG_UNRESPONSIVE", task_id=None, run_id=None,
          payload={"lastHeartbeatAt": last_heartbeat.strftime(ISO_FORMAT)},
          idempotency_key=idempotency_key)
      self.sm.append_event(unresp_event)
  \<close>
  Times are microseconds since the epoch; the comparison of seconds and the floor
  division are done on them exactly. A \<open>datetime\<close> is always truthy. The call passes the
  keyword \<open>run_id\<close>, which \<open>_build_event\<close> does not have.
\<close>

definition stamp_after :: "int option \<Rightarrow> int option \<Rightarrow> bool" where
  "stamp_after a b =
     (case a of
        None \<Rightarrow> False
      | Some x \<Rightarrow> (case b of None \<Rightarrow> True | Some y \<Rightarrow> x > y))"

definition watchdog_heartbeat :: "ctx \<Rightarrow> dict list \<Rightarrow> store \<Rightarrow> outcome" where
  "watchdog_heartbeat c events s =
     (let info = event_index c events in
      if stamp_after (last_project_finished_at info) (last_project_started_at info) then (None, s)
      else if stamp_after (last_project_halted_at info) (last_project_resumed_at info) then (None, s)
      else
        (case last_heartbeat_at info of
           None \<Rightarrow> (None, s)
         | Some hb \<Rightarrow>
             if now_us c - hb < heartbeat_timeout_sec c * 1000000 then (None, s)
             else if heartbeat_timeout_sec c = 0 then (Some ZeroDivisionError, s)
             else
               (let window = now_us c div (heartbeat_timeout_sec c * 1000000);
                    idempotency_key = project c @ U '':WATCHDOG_UNRESPONSIVE:'' @ py_str_int window
                in build_and_append c s
                     [(''etype'', JStr (U ''WATCHDOG_UNRESPONSIVE'')), (''task_id'', JNull),
                      (''run_id'', JNull),
                      (''payload'', JObj [(U ''lastHeartbeatAt'', JStr (strftime c hb))]),
                      (''idempotency_key'', JStr idempotency_key)])))"

subsection \<open>\<open>validate_incoming\<close>\<close>

text \<open>
  \<^verbatim>\<open>
  def validate_incoming(self, *, actor, task_id, run_id, message_type) -> bool:
      if not task_id:
          return True
      status = reduce_events(self.base_dir, emit_derived=False).status
      expected = status.get("locks", {}).get("tasks", {}).get(task_id)
      if actor in ("worker", "watchdog"):
          if not run_id or run_id != expected:
              seed = f"{run_id}:{message_type}".encode("utf-8")
              digest = hashlib.sha256(seed).hexdigest()[:12]
              idempotency_key = f"{self.project}:{task_id}:{expected}:MESSAGE_IGNORED:{digest}"
              ignore_event = self._build_event(
                  etype="MESSAGE_IGNORED", task_id=task_id, run_id=expected,
                  payload={"actor": actor, "expectedRunId": expected,
                           "receivedRunId": run_id, "messageType": message_type},
                  idempotency_key=idempotency_key)
              self.sm.append_event(ignore_event)
              return False
          return True
      return True
  \<close>
  The result is the returned boolean or the exception, with the store left behind.
\<close>

definition validate_incoming ::
    "ctx \<Rightarrow> store \<Rightarrow> ustr \<Rightarrow> ustr option \<Rightarrow> ustr option \<Rightarrow> ustr \<Rightarrow> (error + bool) \<times> store" where
  "validate_incoming c s actor tid rid message_type =
     (if \<not> str_truthy tid then (Inr True, s)
      else
        let st = reduce_events (utc_now c) (line_sha256 c) (events_file s);
            expected = (case map_of (locks_tasks st) (the tid) of None \<Rightarrow> None | Some r \<Rightarrow> r)
        in if actor = U ''worker'' \<or> actor = U ''watchdog'' then
             (if \<not> str_truthy rid \<or> rid \<noteq> expected then
                (case utf8_encode (fmt_opt rid @ U '':'' @ message_type) of
                   Inl e \<Rightarrow> (Inl e, s)
                 | Inr seed \<Rightarrow>
                     (let digest = take 12 (sha256_hex c seed);
                          idempotency_key = project c @ U '':'' @ the tid @ U '':'' @ fmt_opt expected
                                            @ U '':MESSAGE_IGNORED:'' @ digest
                      in case build_and_append c s
                             [(''etype'', JStr (U ''MESSAGE_IGNORED'')), (''task_id'', opt_json tid),
                              (''run_id'', opt_json expected),
                              (''payload'', JObj [(U ''actor'', JStr actor),
                                                  (U ''expectedRunId'', opt_json expected),
                                                  (U ''receivedRunId'', opt_json rid),
                                                  (U ''messageType'', JStr message_type)]),
                              (''idempotency_key'', JStr idempotency_key)] of
                           (Some e, s') \<Rightarrow> (Inl e, s')
                         | (None, s') \<Rightarrow> (Inr False, s')))
              else (Inr True, s))
           else (Inr True, s))"

subsection \<open>Result notification\<close>

text \<open>
  \<^verbatim>\<open>
  def _aggregate_results(self, status):
      results = []
      for task in status.get("tasks", []):
          task_id = task.get("taskId")
          state = task.get("state")
          last_run_id = task.get("runId") or task.get("lastRunId")
          result = task.get("result", {})
          last_verdict = task.get("lastVerdict", {})
          last_evidence = task.get("lastEvidence", {})
          is_done = state is None and last_run_id is not None
          is_blocked = state == "blocked"
          if not is_done and not is_blocked:
              continue
          result_key = f"{task_id}:{last_run_id}:notified"
          if events_path.exists():
              with open(events_path, "r") as f:
                  for line in f:
                      if result_key in line:
                          continue
          final_state = "done" if is_done else "blocked"
          results.append({"taskId": task_id, "state": final_state, "runId": last_run_id,
              "result": result, "verdict": last_verdict.get("verdict"),
              "evidencePath": last_evidence.get("evidencePath"),
              "quality": result.get("quality")})
      return results
  \<close>
  The scan of the log has no effect: its \<open>continue\<close> belongs to the inner loop over the
  lines, so a task that was notified before is aggregated again.
\<close>

definition last_run_id_of :: "dict \<Rightarrow> ustr option" where
  "last_run_id_of task =
     (if str_truthy (get_str task (U ''runId'')) then get_str task (U ''runId'')
      else get_str task (U ''lastRunId''))"

definition aggregate_one :: "dict \<Rightarrow> dict list" where
  "aggregate_one task =
     (let tid = get_str task (U ''taskId'');
          task_state = get_str task (U ''state'');
          last_run_id = last_run_id_of task;
          res = get_dict task (U ''result'');
          is_done = (task_state = None \<and> last_run_id \<noteq> None);
          is_blocked = (task_state = Some (U ''blocked''))
      in if \<not> is_done \<and> \<not> is_blocked then []
         else [[(U ''taskId'', opt_json tid),
                (U ''state'', JStr (if is_done then U ''done'' else U ''blocked'')),
                (U ''runId'', opt_json last_run_id),
                (U ''result'', JObj res),
                (U ''verdict'', py_get (get_dict task (U ''lastVerdict'')) (U ''verdict'')),
                (U ''evidencePath'', py_get (get_dict task (U ''lastEvidence'')) (U ''evidencePath'')),
                (U ''quality'', py_get res (U ''quality''))]])"

definition aggregate_results :: "status \<Rightarrow> dict list" where
  "aggregate_results st = concat (map aggregate_one (tasks st))"

text \<open>
  \<^verbatim>\<open>
  def _notify_result(self, result):
      task_id = result["taskId"]; state = result["state"]; last_run_id = result["runId"]
      quality = result.get("quality", "clean")
      if state == "done":
          if quality == "warn_override": msg = f"<warning sign> [{self.project}] {task_id} ..."
          else: msg = f"<check mark> [{self.project}] {task_id} ..."
      elif state == "blocked":
          failure = result.get("result", {}).get("failureReason", "unknown")
          msg = f"<cross mark> [{self.project}] {task_id} ...: {failure}"
      else:
          return
      notification_event = {"type": "RESULT_NOTIFIED", "actor": "orchestrator",
          "project": self.project, "taskId": task_id, "runId": last_run_id,
          "payload": {"channel": "telegram", "message": msg},
          "idempotencyKey": f"{self.project}:{task_id}:{last_run_id}:notified"}
      self.sm.append_event(notification_event)
      print(f"[NOTIFICATION] {msg}")
  \<close>
  The message literals are given by their code points.
\<close>

definition notified_key :: "ustr \<Rightarrow> ustr option \<Rightarrow> ustr option \<Rightarrow> ustr" where
  "notified_key p tid rid = p @ U '':'' @ fmt_opt tid @ U '':'' @ fmt_opt rid @ U '':notified''"

definition notify_message :: "ctx \<Rightarrow> dict \<Rightarrow> ustr option" where
  "notify_message c res =
     (let tid = fmt_opt (get_str res (U ''taskId'')) in
      if py_get res (U ''state'') = JStr (U ''done'') then
        (if py_get res (U ''quality'') = JStr (U ''warn_override'')
         then Some ([9888, 65039, 32, 91] @ project c @ [93, 32] @ tid
                    @ [32, 23436, 25104, 65288, 20154, 24037] @ U ''Override'' @ [65289])
         else Some ([9989, 32, 91] @ project c @ [93, 32] @ tid @ [32, 23436, 25104]))
      else if py_get res (U ''state'') = JStr (U ''blocked'') then
        (let failure = (case map_of (get_dict res (U ''result'')) (U ''failureReason'') of
                          None \<Rightarrow> U ''unknown''
                        | Some v \<Rightarrow> py_str c v)
         in Some ([10060, 32, 91] @ project c @ [93, 32] @ tid @ [32, 22833, 36133, 58, 32] @ failure))
      else None)"

definition notify_result :: "ctx \<Rightarrow> store \<Rightarrow> dict \<Rightarrow> outcome" where
  "notify_result c s res =
     (case notify_message c res of
        None \<Rightarrow> (None, s)
      | Some msg \<Rightarrow>
          sm_append c s
            [(U ''type'', JStr (U ''RESULT_NOTIFIED'')),
             (U ''actor'', JStr (U ''orchestrator'')),
             (U ''project'', JStr (project c)),
             (U ''taskId'', py_get res (U ''taskId'')),
             (U ''runId'', py_get res (U ''runId'')),
             (U ''payload'', JObj [(U ''channel'', JStr (U ''telegram'')), (U ''message'', JStr msg)]),
             (U ''idempotencyKey'',
                JStr (notified_key (project c) (get_str res (U ''taskId'')) (get_str res (U ''runId''))))])"

text \<open>\<open>_process_results\<close>: notify every aggregated result, stopping at an exception.\<close>

fun notify_all :: "ctx \<Rightarrow> store \<Rightarrow> dict list \<Rightarrow> outcome" where
  "notify_all c s [] = (None, s)"
| "notify_all c s (res # rest) =
     (case notify_result c s res of
        (Some e, s') \<Rightarrow> (Some e, s')
      | (None, s') \<Rightarrow> notify_all c s' rest)"

definition process_results :: "ctx \<Rightarrow> store \<Rightarrow> status \<Rightarrow> outcome" where
  "process_results c s st = notify_all c s (aggregate_results st)"

text \<open>
  What happens to the log over any number of ticks, as far as notifications go: a tick
  runs the notification step on the status it computed, and every other write, by the
  tick or by another actor, is an \<open>append_event\<close> of an event of another type. An
  exception ends the step; what was appended before it stays.
\<close>

datatype op = Notify ctx status | Other ustr ustr dict

fun run_ops :: "store \<Rightarrow> op list \<Rightarrow> store" where
  "run_ops s [] = s"
| "run_ops s (Notify c st # ops) = run_ops (snd (process_results c s st)) ops"
| "run_ops s (Other uuid_hex now event # ops) =
     (case append_event uuid_hex now s event of
        Inl e \<Rightarrow> run_ops s ops
      | Inr (r, s') \<Rightarrow> run_ops s' ops)"

definition notified_for :: "ustr option \<Rightarrow> ustr option \<Rightarrow> dict \<Rightarrow> bool" where
  "notified_for tid rid e =
     (get_str e (U ''type'') = Some (U ''RESULT_NOTIFIED'')
      \<and> get_str e (U ''taskId'') = tid \<and> get_str e (U ''runId'') = rid)"

subsection \<open>A context for the scenarios\<close>

text \<open>
  The orchestrator of scenario S3: \<open>heartbeatTimeoutSec = 180\<close>, the clock 400 seconds
  after the epoch, no session label. \<open>strptime\<close> is given on the one time stamp the
  scenarios use; the hash, \<open>str()\<close> and the identifiers are fixed values.
\<close>

definition example_ctx :: ctx where
  "example_ctx =
     \<lparr>project = U ''demo'', session_label = None, heartbeat_timeout_sec = 180,
      now_us = 400000000, utc_now = U ''1970-01-01T00:06:40.000000Z'',
      parse_time = (\<lambda>v. if v = U ''1970-01-01T00:00:00.000000Z'' then Some 0 else None),
      strftime = (\<lambda>t. U ''1970-01-01T00:00:00.000000Z''),
      sha256_hex = (\<lambda>bs. U ''e3b0c44298fc1c149afbf4c8996fb92427ae41e4649b934ca495991b7852b855''),
      py_str = (\<lambda>v. U ''None''),
      uuid4_hex = (\<lambda>n. U ''00000000000000000000000000000000''),
      line_sha256 = (\<lambda>d. [])\<rparr>"

text \<open>
  Three facts about a store that the notification step relies on and keeps: every string
  key carried by a record of the log is in the idempotency index; every \<open>RESULT_NOTIFIED\<close>
  record carries the key that \<open>_notify_result\<close> derives from its task and run; and no pair
  of task and run has two \<open>RESULT_NOTIFIED\<close> records.
\<close>

definition index_covers_log :: "store \<Rightarrow> bool" where
  "index_covers_log s =
     (\<forall>e \<in> set (events_file s). \<forall>k. py_get e (U ''idempotencyKey'') = JStr k \<longrightarrow>
        has_key (load_idempotency_index s) k)"

definition notified_keyed :: "ustr \<Rightarrow> store \<Rightarrow> bool" where
  "notified_keyed p s =
     (\<forall>e \<in> set (events_file s). get_str e (U ''type'') = Some (U ''RESULT_NOTIFIED'') \<longrightarrow>
        py_get e (U ''idempotencyKey'')
          = JStr (notified_key p (get_str e (U ''taskId'')) (get_str e (U ''runId''))))"

definition notified_once :: "store \<Rightarrow> bool" where
  "notified_once s =
     (\<forall>tid rid. length (filter (notified_for tid rid) (events_file s)) \<le> 1)"

definition notify_inv :: "ustr \<Rightarrow> store \<Rightarrow> bool" where
  "notify_inv p s = (index_covers_log s \<and> notified_keyed p s \<and> notified_once s)"


section \<open>Properties of the codec and of the State Manager\<close>

subsection \<open>Strings and dictionaries\<close>

lemma U_eq [simp]: "U a = U b \<longleftrightarrow> a = b"
  by (simp add: U_def inj_map_eq_map inj_on_def)

lemma U_Nil [simp]: "U [] = []" "U s = [] \<longleftrightarrow> s = []" "[] = U s \<longleftrightarrow> s = []"
  by (auto simp: U_def)

lemma map_of_dict_set: "map_of (dict_set d k v) = (map_of d)(k \<mapsto> v)"
  by (induction d) auto

lemma dict_set_twice: "dict_set (dict_set d k a) k b = dict_set d k b"
  by (induction d) auto

lemma has_key_dict_set: "has_key (dict_set d k v) k' \<longleftrightarrow> k' = k \<or> has_key d k'"
  by (simp add: has_key_def map_of_dict_set)

lemma py_get_dict_set: "py_get (dict_set d k v) k' = (if k' = k then v else py_get d k')"
  by (simp add: py_get_def map_of_dict_set)

lemma py_get_setdefault_other: "k' \<noteq> k \<Longrightarrow> py_get (setdefault d k v) k' = py_get d k'"
  by (simp add: setdefault_def py_get_dict_set)

lemma has_key_setdefault: "has_key (setdefault d k v) k' \<longleftrightarrow> k' = k \<or> has_key d k'"
  by (auto simp: setdefault_def has_key_dict_set)

lemma canonical_json_crc: "canonical_json (dict_set e (U ''crc32'') v) = canonical_json e"
  by (simp add: canonical_json_def dict_set_twice)

lemma compute_crc32_crc: "compute_crc32 (dict_set e (U ''crc32'') v) = compute_crc32 e"
  by (simp add: compute_crc32_def canonical_json_bytes_def canonical_json_crc)

lemma length_format_08X: "length (format_08X w) = 8"
  by (simp add: format_08X_def)

lemma hex_digit_upper: "n < 16 \<Longrightarrow> is_upper_hex (hex_digit True n)"
  by (auto simp: hex_digit_def is_upper_hex_def)

lemma nibble_lt: "unat ((w :: 32 word) AND 0xF) < 16"
proof -
  have "w AND 0xF \<le> 0xF" by (rule word_and_le1)
  then have "unat (w AND 0xF) \<le> unat (0xF :: 32 word)" by (simp add: word_le_nat_alt)
  then show ?thesis by simp
qed

lemma set_format_08X: "c \<in> set (format_08X w) \<Longrightarrow> is_upper_hex c"
  unfolding format_08X_def using hex_digit_upper [OF nibble_lt] by auto

lemma encodable_Nil [simp]: "encodable []"
  by (simp add: encodable_def)

lemma encodable_Cons [simp]:
  "encodable (c # cs) \<longleftrightarrow> (c < 0xD800 \<or> (0xDFFF < c \<and> c < 0x110000)) \<and> encodable cs"
  by (simp add: encodable_def)

lemma encodable_append [simp]: "encodable (xs @ ys) \<longleftrightarrow> encodable xs \<and> encodable ys"
  by (auto simp: encodable_def)

lemma encodable_U [simp]: "encodable (U s)"
proof -
  have "of_char c < (256 :: nat)" for c :: char
  proof -
    have "(of_char c :: nat) mod 256 < 256" by simp
    then show ?thesis by (simp only: of_char_mod_256)
  qed
  then have "of_char c < (0xD800 :: nat)" for c :: char
    by (rule less_trans) simp
  then show ?thesis
    by (auto simp: encodable_def U_def)
qed

lemma encodable_concat: "(\<forall>x \<in> set xs. encodable x) \<Longrightarrow> encodable (concat xs)"
  by (induction xs) auto

lemma encodable_join: "encodable sep \<Longrightarrow> (\<forall>x \<in> set xs. encodable x) \<Longrightarrow> encodable (join sep xs)"
  by (induction sep xs rule: join.induct) auto

lemma encodable_dec_digits: "encodable (dec_digits n)"
proof (induction n rule: dec_digits.induct)
  case (1 n)
  show ?case
  proof (cases "n < 10")
    case True
    then show ?thesis by (subst dec_digits.simps) simp
  next
    case False
    have "48 + n mod 10 < 0xD800" by linarith
    with False 1 show ?thesis by (subst dec_digits.simps) simp
  qed
qed

lemma encodable_py_str_int: "encodable (py_str_int i)"
  by (simp add: py_str_int_def encodable_dec_digits)

lemma encodable_escape_char:
  "c < 0xD800 \<or> (0xDFFF < c \<and> c < 0x110000) \<Longrightarrow> encodable (escape_char c)"
  by (auto simp: escape_char_def hex_digit_def)

lemma encodable_encode_basestring: "encodable s \<Longrightarrow> encodable (encode_basestring s)"
proof -
  assume "encodable s"
  then have "\<forall>x \<in> set (map escape_char s). encodable x"
    by (auto simp: encodable_def [of s] intro: encodable_escape_char)
  then have "encodable (concat (map escape_char s))"
    by (rule encodable_concat)
  then show ?thesis
    by (simp add: encode_basestring_def)
qed

lemma encodable_json_dumps: "json_encodable v \<Longrightarrow> encodable (json_dumps sk v)"
proof (induction sk v rule: json_dumps.induct)
  case (5 sk xs)
  then show ?case by (auto intro!: encodable_join)
next
  case (6 sk kvs)
  let ?items = "if sk then sort_key fst kvs else kvs"
  have "encodable (encode_basestring k @ U '':'' @ json_dumps sk v)"
    if mem: "(k, v) \<in> set ?items" for k v
  proof -
    from mem have "(k, v) \<in> set kvs"
      by (simp split: if_splits)
    with "6.prems" have "encodable k" and "json_encodable v"
      by auto
    with "6.IH" [OF mem refl] show ?thesis
      by (simp add: encodable_encode_basestring)
  qed
  then have "\<forall>x \<in> set (map (\<lambda>(k, v). encode_basestring k @ U '':'' @ json_dumps sk v) ?items).
      encodable x"
    by auto
  then have "encodable (join (U '','')
      (map (\<lambda>(k, v). encode_basestring k @ U '':'' @ json_dumps sk v) ?items))"
    by (intro encodable_join) simp_all
  then show ?case
    by simp
qed (simp_all add: encodable_py_str_int encodable_encode_basestring)

lemma utf8_char_encodable:
  "c < 0xD800 \<or> (0xDFFF < c \<and> c < 0x110000) \<Longrightarrow> \<not> isl (utf8_char c)"
  by (auto simp: utf8_char_def)

lemma utf8_encode_encodable: "encodable s \<Longrightarrow> \<exists>bs. utf8_encode s = Inr bs"
proof (induction s)
  case Nil
  then show ?case by simp
next
  case (Cons c cs)
  then obtain rest where "utf8_encode cs = Inr rest" by auto
  moreover from Cons.prems have "\<not> isl (utf8_char c)"
    by (intro utf8_char_encodable) simp
  then obtain bs where "utf8_char c = Inr bs"
    by (cases "utf8_char c") auto
  ultimately show ?case by simp
qed

lemma utf8_encode_Inr_encodable: "utf8_encode s = Inr bs \<Longrightarrow> encodable s"
proof (induction s arbitrary: bs)
  case Nil
  then show ?case by simp
next
  case (Cons c cs)
  then show ?case
    by (auto simp: utf8_char_def split: sum.splits if_splits)
qed

subsection \<open>The CRC of a stored record\<close>

lemma set_dict_set: "set (dict_set d k v) \<subseteq> insert (k, v) (set d)"
  by (induction d) (auto split: if_splits)

lemma json_encodable_dict_set:
  "json_encodable (JObj d) \<Longrightarrow> encodable k \<Longrightarrow> json_encodable v \<Longrightarrow> json_encodable (JObj (dict_set d k v))"
  using set_dict_set [of d k v] by fastforce

lemma json_encodable_setdefault:
  "json_encodable (JObj d) \<Longrightarrow> encodable k \<Longrightarrow> json_encodable v \<Longrightarrow> json_encodable (JObj (setdefault d k v))"
  by (simp add: setdefault_def json_encodable_dict_set del: json_encodable.simps)

lemma mask32 [simp]: "(w :: 32 word) AND 0xFFFFFFFF = w"
proof -
  have "(0xFFFFFFFF :: 32 word) = - 1" by simp
  then show ?thesis by (simp only: and.right_neutral)
qed

lemma compute_crc32_Inr:
  "compute_crc32 e = Inr c \<longleftrightarrow> (\<exists>bs. canonical_json_bytes e = Inr bs \<and> c = format_08X (zlib_crc32 bs))"
  by (auto simp: compute_crc32_def split: sum.splits)

lemma compute_crc32_ok:
  assumes "json_encodable (JObj e)"
  shows "\<exists>c. compute_crc32 e = Inr c"
proof -
  from assms have "json_encodable (JObj (dict_set e (U ''crc32'') (JStr [])))"
    by (intro json_encodable_dict_set) simp_all
  then have "encodable (canonical_json e)"
    unfolding canonical_json_def by (rule encodable_json_dumps)
  then obtain bs where "canonical_json_bytes e = Inr bs"
    unfolding canonical_json_bytes_def using utf8_encode_encodable by blast
  then show ?thesis
    by (simp add: compute_crc32_def)
qed

lemma compute_crc32_nonempty: "compute_crc32 e = Inr c \<Longrightarrow> c \<noteq> []"
proof -
  assume "compute_crc32 e = Inr c"
  then obtain bs where "c = format_08X (zlib_crc32 bs)"
    by (auto simp: compute_crc32_Inr)
  then have "length c = 8"
    by (simp add: length_format_08X)
  then show ?thesis
    by auto
qed

lemma verify_crc32_iff:
  "verify_crc32 event \<longleftrightarrow> (\<exists>c. compute_crc32 event = Inr c \<and> py_get event (U ''crc32'') = JStr c)"
  by (auto simp: verify_crc32_def Let_def dest: compute_crc32_nonempty split: sum.splits)

lemma verify_crc32_stored:
  "compute_crc32 e = Inr c \<Longrightarrow> verify_crc32 (dict_set e (U ''crc32'') (JStr c))"
  by (simp add: verify_crc32_iff compute_crc32_crc py_get_dict_set)

lemma append_event_Inr:
  assumes "append_event uuid_hex now s event = Inr (r, s')"
  shows "(r = Deduped \<and> s' = s \<and>
            key_in_index (py_get event (U ''idempotencyKey'')) (load_idempotency_index s) = Inr True)
       \<or> (\<exists>crc. key_in_index (py_get event (U ''idempotencyKey'')) (load_idempotency_index s) = Inr False
             \<and> compute_crc32 (fill_defaults uuid_hex now (read_last_sequence s + 1) event) = Inr crc
             \<and> r = Appended (dict_set (fill_defaults uuid_hex now (read_last_sequence s + 1) event)
                               (U ''crc32'') (JStr crc))
             \<and> s' = \<lparr>events_file = events_file s @
                        [dict_set (fill_defaults uuid_hex now (read_last_sequence s + 1) event)
                               (U ''crc32'') (JStr crc)],
                      id_index = Some (dict_set (load_idempotency_index s)
                          (index_key (py_get event (U ''idempotencyKey''))) (read_last_sequence s + 1)),
                      sequence_file = Some (read_last_sequence s + 1)\<rparr>)"
  using assms
  by (auto simp: append_event_def Let_def split: if_splits sum.splits)

lemma append_event_fresh_key:
  assumes key: "py_get event (U ''idempotencyKey'') = JStr k"
    and fresh: "\<not> has_key (load_idempotency_index s) k"
    and enc: "json_encodable (JObj event)" "encodable uuid_hex" "encodable now"
  shows "\<exists>e s'. append_event uuid_hex now s event = Inr (Appended e, s')"
proof -
  from key have hk: "has_key event (U ''idempotencyKey'')"
    by (auto simp: py_get_def has_key_def split: option.splits)
  have "json_encodable (JObj (fill_defaults uuid_hex now (read_last_sequence s + 1) event))"
    unfolding fill_defaults_def Let_def using enc
    by (intro json_encodable_setdefault) simp_all
  then obtain crc where
    "compute_crc32 (fill_defaults uuid_hex now (read_last_sequence s + 1) event) = Inr crc"
    using compute_crc32_ok by blast
  with hk key fresh show ?thesis
    by (simp add: append_event_def Let_def)
qed

text \<open>
  C4. Every event that \<open>append_event\<close> persists verifies: the record \<open>e\<close> appended to the
  log carries in \<open>crc32\<close> the CRC-32 of the UTF-8 bytes of its canonical encoding (keys
  sorted, \<open>crc32\<close> forced to the empty string), written as eight upper-case hex digits,
  and \<open>verify_crc32 e\<close> holds.
\<close>

theorem append_event_crc_verifies:
  assumes "append_event uuid_hex now s event = Inr (Appended e, s')"
  shows "events_file s' = events_file s @ [e] \<and> verify_crc32 e \<and>
         (\<exists>bs. utf8_encode (json_dumps True (JObj (dict_set e (U ''crc32'') (JStr [])))) = Inr bs
             \<and> py_get e (U ''crc32'') = JStr (format_08X (zlib_crc32 bs))
             \<and> length (format_08X (zlib_crc32 bs)) = 8
             \<and> (\<forall>c \<in> set (format_08X (zlib_crc32 bs)). is_upper_hex c))"
proof -
  let ?e4 = "fill_defaults uuid_hex now (read_last_sequence s + 1) event"
  from append_event_Inr [OF assms] obtain crc where
    crc: "compute_crc32 ?e4 = Inr crc" and
    e: "e = dict_set ?e4 (U ''crc32'') (JStr crc)" and
    s': "events_file s' = events_file s @ [e]"
    by auto
  from crc have v: "verify_crc32 e"
    unfolding e by (rule verify_crc32_stored)
  from crc obtain bs where bs: "canonical_json_bytes ?e4 = Inr bs" and c: "crc = format_08X (zlib_crc32 bs)"
    by (auto simp: compute_crc32_Inr)
  from bs have "utf8_encode (json_dumps True (JObj (dict_set e (U ''crc32'') (JStr [])))) = Inr bs"
    by (simp add: e canonical_json_bytes_def canonical_json_def dict_set_twice)
  moreover have "py_get e (U ''crc32'') = JStr (format_08X (zlib_crc32 bs))"
    by (simp add: e c py_get_dict_set)
  ultimately show ?thesis
    using s' v by (auto simp: length_format_08X set_format_08X)
qed

theorem append_event_crc_verifies_witness:
  "\<exists>e s'. append_event (U ''0a'') (U ''2026-01-01T00:00:00.000000Z'') fresh_store
            [(U ''type'', JStr (U ''TEST_EVENT'')), (U ''payload'', JObj [(U ''data'', JStr (U ''test''))]),
             (U ''idempotencyKey'', JStr (U ''test:crc:test:1''))] = Inr (Appended e, s')
        \<and> events_file s' = [e] \<and> verify_crc32 e"
proof -
  let ?ev = "[(U ''type'', JStr (U ''TEST_EVENT'')), (U ''payload'', JObj [(U ''data'', JStr (U ''test''))]),
             (U ''idempotencyKey'', JStr (U ''test:crc:test:1''))]"
  have "\<exists>e s'. append_event (U ''0a'') (U ''2026-01-01T00:00:00.000000Z'') fresh_store ?ev
          = Inr (Appended e, s')"
    by (rule append_event_fresh_key [where k = "U ''test:crc:test:1''"])
       (simp_all add: py_get_def has_key_def load_idempotency_index_def fresh_store_def)
  then obtain e s' where
    a: "append_event (U ''0a'') (U ''2026-01-01T00:00:00.000000Z'') fresh_store ?ev = Inr (Appended e, s')"
    by blast
  from append_event_crc_verifies [OF a] have "events_file s' = [e] \<and> verify_crc32 e"
    by (simp add: fresh_store_def)
  with a show ?thesis
    by blast
qed

subsection \<open>Verification is total\<close>

text \<open>A record holding a lone surrogate cannot be encoded: the codec raises.\<close>

lemma surrogate_crc:
  "compute_crc32 [(U ''crc32'', JStr (U ''00000000'')), (U ''actor'', JStr [0xD800])] = Inl UnicodeEncodeError"
  by (simp add: compute_crc32_def canonical_json_bytes_def canonical_json_def U_def
      encode_basestring_def escape_char_def utf8_char_def)

text \<open>
  C10. \<open>verify_crc32\<close> returns a verdict for every event dictionary and never raises:
  a record without a \<open>crc32\<close> field, or with an empty one, is rejected before anything
  is computed; a record on which the codec raises is rejected by the \<open>except\<close> branch;
  and in every other case the verdict is the comparison of the stored field with the
  recomputed CRC.
\<close>

theorem verify_crc32_total:
  "(\<not> has_key event (U ''crc32'') \<longrightarrow> \<not> verify_crc32 event)
   \<and> (py_get event (U ''crc32'') = JStr [] \<longrightarrow> \<not> verify_crc32 event)
   \<and> (\<forall>err. compute_crc32 event = Inl err \<longrightarrow> \<not> verify_crc32 event)
   \<and> (verify_crc32 event \<longleftrightarrow>
        (\<exists>c. compute_crc32 event = Inr c \<and> py_get event (U ''crc32'') = JStr c))"
proof -
  have "\<not> verify_crc32 event" if "\<not> has_key event (U ''crc32'')"
    using that by (simp add: verify_crc32_def py_get_def has_key_def)
  moreover have "\<not> verify_crc32 event" if "py_get event (U ''crc32'') = JStr []"
    using that by (simp add: verify_crc32_def)
  moreover have "\<not> verify_crc32 event" if "compute_crc32 event = Inl err" for err
    using that by (simp add: verify_crc32_iff)
  ultimately show ?thesis
    using verify_crc32_iff by blast
qed

theorem verify_crc32_total_witness:
  "\<not> verify_crc32 [(U ''type'', JStr (U ''TEST_EVENT'')), (U ''idempotencyKey'', JStr (U ''k''))]
   \<and> \<not> verify_crc32 [(U ''type'', JStr (U ''TEST_EVENT'')), (U ''crc32'', JStr [])]
   \<and> \<not> verify_crc32 [(U ''crc32'', JStr (U ''00000000'')), (U ''actor'', JStr [0xD800])]"
proof -
  have a: "\<not> has_key [(U ''type'', JStr (U ''TEST_EVENT'')), (U ''idempotencyKey'', JStr (U ''k''))] (U ''crc32'')"
    by (simp add: has_key_def)
  have b: "py_get [(U ''type'', JStr (U ''TEST_EVENT'')), (U ''crc32'', JStr [])] (U ''crc32'') = JStr []"
    by (simp add: py_get_def)
  have c: "compute_crc32 [(U ''crc32'', JStr (U ''00000000'')), (U ''actor'', JStr [0xD800])]
      = Inl UnicodeEncodeError"
    by (rule surrogate_crc)
  from a verify_crc32_total [of "[(U ''type'', JStr (U ''TEST_EVENT'')), (U ''idempotencyKey'', JStr (U ''k''))]"]
  have "\<not> verify_crc32 [(U ''type'', JStr (U ''TEST_EVENT'')), (U ''idempotencyKey'', JStr (U ''k''))]"
    by blast
  moreover from b verify_crc32_total [of "[(U ''type'', JStr (U ''TEST_EVENT'')), (U ''crc32'', JStr [])]"]
  have "\<not> verify_crc32 [(U ''type'', JStr (U ''TEST_EVENT'')), (U ''crc32'', JStr [])]"
    by blast
  moreover from c verify_crc32_total [of "[(U ''crc32'', JStr (U ''00000000'')), (U ''actor'', JStr [0xD800])]"]
  have "\<not> verify_crc32 [(U ''crc32'', JStr (U ''00000000'')), (U ''actor'', JStr [0xD800])]"
    by blast
  ultimately show ?thesis
    by blast
qed

subsection \<open>Idempotent append\<close>

lemma py_get_setdefault:
  "py_get (setdefault d k v) k' = (if k' = k \<and> \<not> has_key d k then v else py_get d k')"
  by (simp add: setdefault_def py_get_dict_set)

lemma py_get_fill_defaults_kept:
  "has_key ev k \<Longrightarrow> py_get (fill_defaults u t n ev) k = py_get ev k"
  by (auto simp: fill_defaults_def Let_def py_get_setdefault has_key_setdefault)

lemma py_get_fill_defaults_seq:
  "\<not> has_key ev (U ''sequenceNumber'') \<Longrightarrow> py_get (fill_defaults u t n ev) (U ''sequenceNumber'') = JInt n"
  by (simp add: fill_defaults_def Let_def py_get_setdefault has_key_setdefault)






subsection \<open>Sequence numbers\<close>

lemma append_event_seq_step:
  assumes app: "append_event u t s ev = Inr (r, s')"
    and nokey: "\<not> has_key ev (U ''sequenceNumber'')"
    and sf: "sequence_file s = (if events_file s = [] then None else Some (int (length (events_file s))))"
    and sq: "seq_numbers s = map JInt [1..int (length (events_file s))]"
  shows "sequence_file s' = (if events_file s' = [] then None else Some (int (length (events_file s'))))
       \<and> seq_numbers s' = map JInt [1..int (length (events_file s'))]"
proof -
  from sf have rls: "read_last_sequence s = int (length (events_file s))"
    by (simp add: read_last_sequence_def)
  let ?n = "int (length (events_file s)) + 1"
  from append_event_Inr [OF app] show ?thesis
  proof
    assume "r = Deduped \<and> s' = s \<and>
      key_in_index (py_get ev (U ''idempotencyKey'')) (load_idempotency_index s) = Inr True"
    with sf sq show ?thesis by simp
  next
    assume "\<exists>crc. key_in_index (py_get ev (U ''idempotencyKey'')) (load_idempotency_index s) = Inr False
             \<and> compute_crc32 (fill_defaults u t (read_last_sequence s + 1) ev) = Inr crc
             \<and> r = Appended (dict_set (fill_defaults u t (read_last_sequence s + 1) ev)
                               (U ''crc32'') (JStr crc))
             \<and> s' = \<lparr>events_file = events_file s @
                        [dict_set (fill_defaults u t (read_last_sequence s + 1) ev)
                               (U ''crc32'') (JStr crc)],
                      id_index = Some (dict_set (load_idempotency_index s)
                          (index_key (py_get ev (U ''idempotencyKey''))) (read_last_sequence s + 1)),
                      sequence_file = Some (read_last_sequence s + 1)\<rparr>"
    then obtain crc where
      ev': "events_file s' = events_file s @ [dict_set (fill_defaults u t ?n ev) (U ''crc32'') (JStr crc)]"
      and sf': "sequence_file s' = Some ?n"
      by (auto simp: rls)
    have last: "py_get (dict_set (fill_defaults u t ?n ev) (U ''crc32'') (JStr crc)) (U ''sequenceNumber'')
        = JInt ?n"
      using nokey by (simp add: py_get_dict_set py_get_fill_defaults_seq)
    have up: "[1..?n] = [1..int (length (events_file s))] @ [?n]"
      by (simp add: upto_rec2)
    from ev' sf' last sq up show ?thesis
      by (simp add: seq_numbers_def add.commute)
  qed
qed

lemma append_all_seq_inv:
  assumes "\<forall>c \<in> set calls. \<not> has_key (snd (snd c)) (U ''sequenceNumber'')"
    and "sequence_file s = (if events_file s = [] then None else Some (int (length (events_file s))))"
    and "seq_numbers s = map JInt [1..int (length (events_file s))]"
  shows "seq_numbers (append_all s calls) = map JInt [1..int (length (events_file (append_all s calls)))]"
  using assms
proof (induction s calls rule: append_all.induct)
  case (1 s)
  then show ?case by simp
next
  case (2 s u t ev calls)
  show ?case
  proof (cases "append_event u t s ev")
    case (Inl e)
    with 2 show ?thesis by simp
  next
    case (Inr p)
    obtain r s' where p: "p = (r, s')" by (cases p)
    from Inr p have app: "append_event u t s ev = Inr (r, s')" by simp
    from "2.prems" have nokey: "\<not> has_key ev (U ''sequenceNumber'')" by simp
    from append_event_seq_step [OF app nokey "2.prems"(2,3)] "2.prems"(1)
    have "seq_numbers (append_all s' calls) = map JInt [1..int (length (events_file (append_all s' calls)))]"
      by (intro "2.IH"(2) [OF app [symmetric, THEN sym] refl]) simp_all
    with app show ?thesis by simp
  qed
qed

lemma append_event_Appended_shape:
  assumes key: "py_get ev (U ''idempotencyKey'') = JStr k"
    and fresh: "\<not> has_key (load_idempotency_index s) k"
    and enc: "json_encodable (JObj ev)" "encodable u" "encodable t"
  shows "\<exists>crc. append_event u t s ev =
      Inr (Appended (dict_set (fill_defaults u t (read_last_sequence s + 1) ev) (U ''crc32'') (JStr crc)),
           \<lparr>events_file = events_file s @
              [dict_set (fill_defaults u t (read_last_sequence s + 1) ev) (U ''crc32'') (JStr crc)],
            id_index = Some (dict_set (load_idempotency_index s) k (read_last_sequence s + 1)),
            sequence_file = Some (read_last_sequence s + 1)\<rparr>)"
proof -
  from append_event_fresh_key [OF assms] obtain e s' where
    a: "append_event u t s ev = Inr (Appended e, s')"
    by blast
  from append_event_Inr [OF a] key show ?thesis
    unfolding a by auto
qed

lemma append_all_fresh_two:
  assumes k1: "py_get ev1 (U ''idempotencyKey'') = JStr k1"
    and k2: "py_get ev2 (U ''idempotencyKey'') = JStr k2"
    and ne: "k1 \<noteq> k2"
    and enc1: "json_encodable (JObj ev1)" "encodable u1" "encodable t1"
    and enc2: "json_encodable (JObj ev2)" "encodable u2" "encodable t2"
  shows "\<exists>c1 c2. events_file (append_all fresh_store [(u1, t1, ev1), (u2, t2, ev2)]) =
      [dict_set (fill_defaults u1 t1 1 ev1) (U ''crc32'') (JStr c1),
       dict_set (fill_defaults u2 t2 2 ev2) (U ''crc32'') (JStr c2)]"
proof -
  have f: "\<not> has_key (load_idempotency_index fresh_store) k1"
    by (simp add: load_idempotency_index_def fresh_store_def has_key_def)
  from append_event_Appended_shape [OF k1 f enc1] obtain c1 where
    a1: "append_event u1 t1 fresh_store ev1 =
      Inr (Appended (dict_set (fill_defaults u1 t1 1 ev1) (U ''crc32'') (JStr c1)),
           \<lparr>events_file = [dict_set (fill_defaults u1 t1 1 ev1) (U ''crc32'') (JStr c1)],
            id_index = Some [(k1, 1)], sequence_file = Some 1\<rparr>)"
    by (auto simp: fresh_store_def read_last_sequence_def load_idempotency_index_def)
  let ?s1 = "\<lparr>events_file = [dict_set (fill_defaults u1 t1 1 ev1) (U ''crc32'') (JStr c1)],
            id_index = Some [(k1, 1::int)], sequence_file = Some (1::int)\<rparr>"
  from ne have f2: "\<not> has_key (load_idempotency_index ?s1) k2"
    by (simp add: load_idempotency_index_def has_key_def)
  from append_event_Appended_shape [OF k2 f2 enc2] obtain c2 s2 where
    a2: "append_event u2 t2 ?s1 ev2 =
      Inr (Appended (dict_set (fill_defaults u2 t2 2 ev2) (U ''crc32'') (JStr c2)), s2)"
    and s2: "events_file s2 = [dict_set (fill_defaults u1 t1 1 ev1) (U ''crc32'') (JStr c1),
       dict_set (fill_defaults u2 t2 2 ev2) (U ''crc32'') (JStr c2)]"
    by (auto simp: read_last_sequence_def)
  from a1 a2 s2 show ?thesis
    by auto
qed

text \<open>
  C3 (as amended). On a fresh project, for every sequence of \<open>append_event\<close> calls whose
  events carry no \<open>sequenceNumber\<close> field of their own, the sequence numbers of the
  persisted records are 1, 2, 3, ... in file order, without gap or repetition: the n-th
  record written has the number n.
\<close>

theorem append_sequence_contiguous:
  assumes "\<forall>c \<in> set calls. \<not> has_key (snd (snd c)) (U ''sequenceNumber'')"
  shows "seq_numbers (append_all fresh_store calls)
       = map JInt [1..int (length (events_file (append_all fresh_store calls)))]"
  using assms by (rule append_all_seq_inv) (simp_all add: fresh_store_def seq_numbers_def)

theorem append_sequence_contiguous_witness:
  "seq_numbers (append_all fresh_store
      [(U ''0a'', U ''2026-01-01T00:00:00.000000Z'',
          [(U ''type'', JStr (U ''PROJECT_STARTED'')), (U ''idempotencyKey'', JStr (U ''p:start''))]),
       (U ''0b'', U ''2026-01-01T00:00:01.000000Z'',
          [(U ''type'', JStr (U ''TASKSPEC_PUBLISHED'')), (U ''idempotencyKey'', JStr (U ''p:spec''))])])
   = [JInt 1, JInt 2]"
proof -
  let ?calls = "[(U ''0a'', U ''2026-01-01T00:00:00.000000Z'',
          [(U ''type'', JStr (U ''PROJECT_STARTED'')), (U ''idempotencyKey'', JStr (U ''p:start''))]),
       (U ''0b'', U ''2026-01-01T00:00:01.000000Z'',
          [(U ''type'', JStr (U ''TASKSPEC_PUBLISHED'')), (U ''idempotencyKey'', JStr (U ''p:spec''))])]"
  have "\<exists>c1 c2. events_file (append_all fresh_store ?calls) = [c1, c2]"
    using append_all_fresh_two [where ?k1.0 = "U ''p:start''" and ?k2.0 = "U ''p:spec''"
        and ?ev1.0 = "[(U ''type'', JStr (U ''PROJECT_STARTED'')), (U ''idempotencyKey'', JStr (U ''p:start''))]"
        and ?ev2.0 = "[(U ''type'', JStr (U ''TASKSPEC_PUBLISHED'')), (U ''idempotencyKey'', JStr (U ''p:spec''))]"
        and ?u1.0 = "U ''0a''" and ?u2.0 = "U ''0b''" and ?t1.0 = "U ''2026-01-01T00:00:00.000000Z''"
        and ?t2.0 = "U ''2026-01-01T00:00:01.000000Z''"]
    by (simp add: py_get_def) blast
  then have len: "length (events_file (append_all fresh_store ?calls)) = 2"
    by auto
  have "\<forall>c \<in> set ?calls. \<not> has_key (snd (snd c)) (U ''sequenceNumber'')"
    by (simp add: has_key_def)
  from append_sequence_contiguous [OF this] len show ?thesis
    by (simp add: upto_rec1)
qed

text \<open>
  C3 as stated fails: an event that arrives with a \<open>sequenceNumber\<close> field keeps it
  (\<open>setdefault\<close> fills the field only when it is absent). Two such appends on a fresh
  project persist two records numbered 7 and 7.
\<close>

theorem append_sequence_counterexample:
  "seq_numbers (append_all fresh_store
      [(U ''0a'', U ''2026-01-01T00:00:00.000000Z'',
          [(U ''idempotencyKey'', JStr (U ''k1'')), (U ''sequenceNumber'', JInt 7)]),
       (U ''0b'', U ''2026-01-01T00:00:01.000000Z'',
          [(U ''idempotencyKey'', JStr (U ''k2'')), (U ''sequenceNumber'', JInt 7)])])
   = [JInt 7, JInt 7]"
proof -
  let ?ev1 = "[(U ''idempotencyKey'', JStr (U ''k1'')), (U ''sequenceNumber'', JInt 7)]"
  let ?ev2 = "[(U ''idempotencyKey'', JStr (U ''k2'')), (U ''sequenceNumber'', JInt 7)]"
  have h1: "has_key ?ev1 (U ''sequenceNumber'')" and h2: "has_key ?ev2 (U ''sequenceNumber'')"
    by (simp_all add: has_key_def)
  have "\<exists>c1 c2. events_file (append_all fresh_store
      [(U ''0a'', U ''2026-01-01T00:00:00.000000Z'', ?ev1),
       (U ''0b'', U ''2026-01-01T00:00:01.000000Z'', ?ev2)]) =
      [dict_set (fill_defaults (U ''0a'') (U ''2026-01-01T00:00:00.000000Z'') 1 ?ev1) (U ''crc32'') (JStr c1),
       dict_set (fill_defaults (U ''0b'') (U ''2026-01-01T00:00:01.000000Z'') 2 ?ev2) (U ''crc32'') (JStr c2)]"
    by (rule append_all_fresh_two [where ?k1.0 = "U ''k1''" and ?k2.0 = "U ''k2''"])
       (simp_all add: py_get_def)
  then obtain c1 c2 where ev: "events_file (append_all fresh_store
      [(U ''0a'', U ''2026-01-01T00:00:00.000000Z'', ?ev1),
       (U ''0b'', U ''2026-01-01T00:00:01.000000Z'', ?ev2)]) =
      [dict_set (fill_defaults (U ''0a'') (U ''2026-01-01T00:00:00.000000Z'') 1 ?ev1) (U ''crc32'') (JStr c1),
       dict_set (fill_defaults (U ''0b'') (U ''2026-01-01T00:00:01.000000Z'') 2 ?ev2) (U ''crc32'') (JStr c2)]"
    by blast
  have p1: "py_get ?ev1 (U ''sequenceNumber'') = JInt 7" and p2: "py_get ?ev2 (U ''sequenceNumber'') = JInt 7"
    by (simp_all add: py_get_def)
  have g1: "py_get (dict_set (fill_defaults (U ''0a'') (U ''2026-01-01T00:00:00.000000Z'') 1 ?ev1)
      (U ''crc32'') (JStr c1)) (U ''sequenceNumber'') = JInt 7"
    using py_get_fill_defaults_kept [OF h1] p1 by (simp add: py_get_dict_set)
  have g2: "py_get (dict_set (fill_defaults (U ''0b'') (U ''2026-01-01T00:00:01.000000Z'') 2 ?ev2)
      (U ''crc32'') (JStr c2)) (U ''sequenceNumber'') = JInt 7"
    using py_get_fill_defaults_kept [OF h2] p2 by (simp add: py_get_dict_set)
  show ?thesis
    by (simp only: seq_numbers_def ev list.map g1 g2)
qed

subsection \<open>The calls that raise\<close>

lemma build_event_run_id_kw:
  "(''run_id'', v) \<in> set kwargs \<Longrightarrow> build_event c kwargs = Inl TypeError"
  by (force simp: build_event_def build_event_params_def)

lemma enforce_block_loop_outcome:
  "enforce_block_loop c idx evs s =
     (if \<exists>ev \<in> set evs. get_str ev (U ''type'') = Some (U ''WATCHDOG_VERDICT'')
            \<and> py_get (get_dict ev (U ''payload'')) (U ''verdict'') = JStr (U ''BLOCK'')
            \<and> str_truthy (get_str ev (U ''eventId'')) \<and> str_truthy (get_str ev (U ''taskId''))
      then Some NameError else None, s)"
  by (induction evs) (auto simp: global_run_id_def)

text \<open>
  C1. The claim fails on the code. For the log of scenario S4, one \<open>WATCHDOG_VERDICT\<close> with
  \<open>verdict=BLOCK\<close> on \<open>(T1, r-1)\<close>, \<open>_enforce_block_sequence\<close> raises \<open>NameError\<close> at the
  guard \<open>not run_id\<close> and appends nothing: no \<open>PROJECT_HALTED\<close>, no \<open>WORKER_RUN_ABORTED\<close>,
  no \<open>RUN_CLOSED\<close>. This holds in every context and for every store.
\<close>

theorem enforce_block_sequence_raises:
  "enforce_block_sequence c
     [[(U ''type'', JStr (U ''WATCHDOG_VERDICT'')), (U ''eventId'', JStr (U ''e-1'')),
       (U ''taskId'', JStr (U ''T1'')), (U ''runId'', JStr (U ''r-1'')),
       (U ''payload'', JObj [(U ''verdict'', JStr (U ''BLOCK''))]),
       (U ''idempotencyKey'', JStr (U ''demo:T1:r-1:WATCHDOG_VERDICT''))]] s
   = (Some NameError, s)"
  by (simp add: enforce_block_sequence_def enforce_block_loop_outcome get_str_def get_dict_def
      py_get_def str_truthy_def)

lemma watchdog_heartbeat_never_appends: "snd (watchdog_heartbeat c events s) = s"
  by (simp add: watchdog_heartbeat_def Let_def build_and_append_def build_event_run_id_kw
      split: option.splits)

text \<open>
  C5. The claim fails on the code. In scenario S3 (a heartbeat 400 seconds old,
  \<open>heartbeatTimeoutSec = 180\<close>, the project started and neither halted nor finished) every
  condition of the claim holds, and \<open>_watchdog_heartbeat\<close> raises \<open>TypeError\<close> at the call
  of \<open>_build_event\<close> and appends nothing.
\<close>

theorem watchdog_heartbeat_raises:
  "watchdog_heartbeat example_ctx
     [[(U ''type'', JStr (U ''PROJECT_STARTED'')), (U ''idempotencyKey'', JStr (U ''demo:PROJECT_STARTED:start-1''))],
      [(U ''type'', JStr (U ''WATCHDOG_HEARTBEAT'')), (U ''at'', JStr (U ''1970-01-01T00:00:00.000000Z'')),
       (U ''idempotencyKey'', JStr (U ''demo:WATCHDOG_HEARTBEAT:99999''))]] s
   = (Some TypeError, s)"
  by (simp add: watchdog_heartbeat_def Let_def build_and_append_def build_event_run_id_kw
      event_index_def index_step_def parse_at_def get_str_def latest_def stamp_after_def
      example_ctx_def)

lemma reduce_events_empty_locks: "locks_tasks (reduce_events now h []) = []"
  by (simp add: reduce_events_def read_events_def reduce_stream_def finalize_def Let_def
      fold_events_def init_rstate_def post_fold_def derive_locks_def build_base_status_def)

text \<open>
  C7. The claim fails on the code. Whenever a message of a worker or of the watchdog
  names a task and its run is missing, empty or not the run locked for the task,
  \<open>validate_incoming\<close> raises \<open>TypeError\<close> at the call of \<open>_build_event\<close> (the keyword
  \<open>run_id\<close> is not a parameter): no \<open>MESSAGE_IGNORED\<close> is appended, the store is
  unchanged, and nothing is returned. (The seed \<open>f"{run_id}:{message_type}"\<close> is assumed
  to encode; otherwise \<open>encode\<close> raises first.)
\<close>

theorem validate_incoming_raises:
  assumes actor: "actor = U ''worker'' \<or> actor = U ''watchdog''"
    and task: "tid = Some t" "t \<noteq> []"
    and mismatch: "rid = None \<or> rid = Some []
      \<or> map_of (locks_tasks (reduce_events (utc_now c) (line_sha256 c) (events_file s))) t \<noteq> Some rid"
    and enc: "encodable (fmt_opt rid @ U '':'' @ message_type)"
  shows "validate_incoming c s actor tid rid message_type = (Inl TypeError, s)"
proof -
  from enc obtain seed where seed: "utf8_encode (fmt_opt rid @ U '':'' @ message_type) = Inr seed"
    using utf8_encode_encodable by blast
  from mismatch have m: "\<not> str_truthy rid
      \<or> rid \<noteq> (case map_of (locks_tasks (reduce_events (utc_now c) (line_sha256 c) (events_file s))) (the tid) of
                  None \<Rightarrow> None | Some r \<Rightarrow> r)"
    using task by (auto simp: str_truthy_def split: option.splits)
  from task have t: "str_truthy tid"
    by (simp add: str_truthy_def)
  have b: "build_and_append c s
      [(''etype'', JStr (U ''MESSAGE_IGNORED'')), (''task_id'', opt_json tid), (''run_id'', x),
       (''payload'', p), (''idempotency_key'', k)] = (Some TypeError, s)" for x p k
    by (simp add: build_and_append_def build_event_run_id_kw)
  from actor t m show ?thesis
    unfolding validate_incoming_def Let_def by (simp only: seed b) auto
qed

text \<open>
  A worker message for task \<open>T1\<close> with run \<open>r-2\<close>, on a project whose log is empty (no run
  is locked for \<open>T1\<close>).
\<close>

theorem validate_incoming_raises_witness:
  "validate_incoming example_ctx fresh_store (U ''worker'') (Some (U ''T1'')) (Some (U ''r-2''))
     (U ''EVIDENCE_SUBMITTED'')
   = (Inl TypeError, fresh_store)"
  by (rule validate_incoming_raises [where t = "U ''T1''"])
     (simp_all add: fresh_store_def reduce_events_empty_locks fmt_opt_def)

subsection \<open>At most one notification per run\<close>

lemma get_str_py_get: "get_str d k = (case py_get d k of JStr v \<Rightarrow> Some v | _ \<Rightarrow> None)"
  by (simp add: get_str_def py_get_def split: option.splits json.splits)

lemma py_get_fill_defaults_other:
  assumes "f \<noteq> U ''eventId''" "f \<noteq> U ''schemaVersion''" "f \<noteq> U ''sequenceNumber''" "f \<noteq> U ''at''"
  shows "py_get (fill_defaults u t n ev) f = py_get ev f"
  using assms by (simp add: fill_defaults_def Let_def py_get_setdefault)

lemma py_get_stored:
  assumes "f \<noteq> U ''eventId''" "f \<noteq> U ''schemaVersion''" "f \<noteq> U ''sequenceNumber''" "f \<noteq> U ''at''"
    and "f \<noteq> U ''crc32''"
  shows "py_get (dict_set (fill_defaults u t n ev) (U ''crc32'') v) f = py_get ev f"
  using assms by (simp add: py_get_dict_set py_get_fill_defaults_other)

lemma get_str_stored:
  assumes "f \<noteq> U ''eventId''" "f \<noteq> U ''schemaVersion''" "f \<noteq> U ''sequenceNumber''" "f \<noteq> U ''at''"
    and "f \<noteq> U ''crc32''"
  shows "get_str (dict_set (fill_defaults u t n ev) (U ''crc32'') v) f = get_str ev f"
  by (simp add: get_str_py_get py_get_stored [OF assms])

lemma notified_for_stored:
  "notified_for tid rid (dict_set (fill_defaults u t n ev) (U ''crc32'') v) = notified_for tid rid ev"
  by (simp add: notified_for_def get_str_stored)

lemma append_event_keeps_notify_inv:
  assumes inv: "notify_inv p s"
    and app: "append_event u t s ev = Inr (r, s')"
    and keyed: "get_str ev (U ''type'') = Some (U ''RESULT_NOTIFIED'') \<longrightarrow>
        py_get ev (U ''idempotencyKey'')
          = JStr (notified_key p (get_str ev (U ''taskId'')) (get_str ev (U ''runId'')))"
  shows "notify_inv p s'"
proof -
  let ?K = "U ''idempotencyKey''"
  let ?keys = "load_idempotency_index s"
  let ?n = "read_last_sequence s + 1"
  from inv have cov: "index_covers_log s" and kd: "notified_keyed p s" and once: "notified_once s"
    by (simp_all add: notify_inv_def)
  from append_event_Inr [OF app] show ?thesis
  proof
    assume "r = Deduped \<and> s' = s \<and> key_in_index (py_get ev ?K) ?keys = Inr True"
    with inv show ?thesis by simp
  next
    assume "\<exists>crc. key_in_index (py_get ev ?K) ?keys = Inr False
             \<and> compute_crc32 (fill_defaults u t ?n ev) = Inr crc
             \<and> r = Appended (dict_set (fill_defaults u t ?n ev) (U ''crc32'') (JStr crc))
             \<and> s' = \<lparr>events_file = events_file s @
                        [dict_set (fill_defaults u t ?n ev) (U ''crc32'') (JStr crc)],
                      id_index = Some (dict_set ?keys (index_key (py_get ev ?K)) ?n),
                      sequence_file = Some ?n\<rparr>"
    then obtain crc where
      fresh: "key_in_index (py_get ev ?K) ?keys = Inr False" and
      ev': "events_file s' = events_file s @ [dict_set (fill_defaults u t ?n ev) (U ''crc32'') (JStr crc)]" and
      idx': "load_idempotency_index s' = dict_set ?keys (index_key (py_get ev ?K)) ?n"
      by (auto simp: load_idempotency_index_def)
    let ?e = "dict_set (fill_defaults u t ?n ev) (U ''crc32'') (JStr crc)"
    have key_e: "py_get ?e ?K = py_get ev ?K"
      by (simp add: py_get_stored)
    have type_e: "get_str ?e (U ''type'') = get_str ev (U ''type'')"
      and tid_e: "get_str ?e (U ''taskId'') = get_str ev (U ''taskId'')"
      and rid_e: "get_str ?e (U ''runId'') = get_str ev (U ''runId'')"
      by (simp_all add: get_str_stored)
    have cov': "index_covers_log s'"
      unfolding index_covers_log_def ev' idx'
    proof (intro ballI allI impI)
      fix e k
      assume e: "e \<in> set (events_file s @ [?e])" and k: "py_get e ?K = JStr k"
      show "has_key (dict_set ?keys (index_key (py_get ev ?K)) ?n) k"
      proof (cases "e = ?e")
        case True
        with k key_e have "py_get ev ?K = JStr k" by simp
        then show ?thesis by (simp add: has_key_dict_set)
      next
        case False
        with e have "e \<in> set (events_file s)" by simp
        with cov k have "has_key ?keys k" by (auto simp: index_covers_log_def)
        then show ?thesis by (simp add: has_key_dict_set)
      qed
    qed
    have kd': "notified_keyed p s'"
      unfolding notified_keyed_def ev'
    proof (intro ballI impI)
      fix e
      assume e: "e \<in> set (events_file s @ [?e])"
        and t: "get_str e (U ''type'') = Some (U ''RESULT_NOTIFIED'')"
      show "py_get e ?K = JStr (notified_key p (get_str e (U ''taskId'')) (get_str e (U ''runId'')))"
      proof (cases "e = ?e")
        case True
        with t keyed show ?thesis
          by (simp add: key_e type_e tid_e rid_e)
      next
        case False
        with e have "e \<in> set (events_file s)" by simp
        with kd t show ?thesis by (auto simp: notified_keyed_def)
      qed
    qed
    have once': "notified_once s'"
      unfolding notified_once_def ev'
    proof (intro allI)
      fix tid rid
      show "length (filter (notified_for tid rid) (events_file s @ [?e])) \<le> 1"
      proof (cases "notified_for tid rid ?e")
        case False
        with once show ?thesis by (simp add: notified_once_def)
      next
        case True
        then have nf: "notified_for tid rid ev"
          by (simp add: notified_for_stored)
        with keyed have kev: "py_get ev ?K = JStr (notified_key p tid rid)"
          by (simp add: notified_for_def)
        with fresh have nk: "\<not> has_key ?keys (notified_key p tid rid)"
          by simp
        have "filter (notified_for tid rid) (events_file s) = []"
        proof (rule ccontr)
          assume "filter (notified_for tid rid) (events_file s) \<noteq> []"
          then obtain e where e: "e \<in> set (events_file s)" and pe: "notified_for tid rid e"
            by (auto simp: filter_empty_conv)
          from kd e pe have "py_get e ?K = JStr (notified_key p tid rid)"
            by (auto simp: notified_keyed_def notified_for_def)
          with cov e have "has_key ?keys (notified_key p tid rid)"
            by (auto simp: index_covers_log_def)
          with nk show False by simp
        qed
        with True show ?thesis by simp
      qed
    qed
    from cov' kd' once' show ?thesis
      by (simp add: notify_inv_def)
  qed
qed

lemma notify_result_keeps_notify_inv:
  assumes "notify_inv (project c) s"
  shows "notify_inv (project c) (snd (notify_result c s res))"
proof (cases "notify_message c res")
  case None
  with assms show ?thesis by (simp add: notify_result_def)
next
  case (Some msg)
  let ?ev = "[(U ''type'', JStr (U ''RESULT_NOTIFIED'')),
             (U ''actor'', JStr (U ''orchestrator'')),
             (U ''project'', JStr (project c)),
             (U ''taskId'', py_get res (U ''taskId'')),
             (U ''runId'', py_get res (U ''runId'')),
             (U ''payload'', JObj [(U ''channel'', JStr (U ''telegram'')), (U ''message'', JStr msg)]),
             (U ''idempotencyKey'',
                JStr (notified_key (project c) (get_str res (U ''taskId'')) (get_str res (U ''runId''))))]"
  have keyed: "py_get ?ev (U ''idempotencyKey'')
      = JStr (notified_key (project c) (get_str ?ev (U ''taskId'')) (get_str ?ev (U ''runId'')))"
    by (simp add: get_str_py_get) (simp add: py_get_def)
  show ?thesis
  proof (cases "append_event (uuid4_hex c (length (events_file s))) (utc_now c) s ?ev")
    case (Inl e)
    with Some assms show ?thesis
      by (simp add: notify_result_def sm_append_def)
  next
    case (Inr q)
    obtain r s' where q: "q = (r, s')" by (cases q)
    from append_event_keeps_notify_inv [OF assms Inr [unfolded q]] keyed
    have "notify_inv (project c) s'" by blast
    with Some Inr q show ?thesis
      by (simp add: notify_result_def sm_append_def)
  qed
qed

lemma notify_all_keeps_notify_inv:
  "notify_inv (project c) s \<Longrightarrow> notify_inv (project c) (snd (notify_all c s rs))"
proof (induction rs arbitrary: s)
  case Nil
  then show ?case by simp
next
  case (Cons res rs)
  from notify_result_keeps_notify_inv [OF Cons.prems, of res]
  have step: "notify_inv (project c) (snd (notify_result c s res))" .
  show ?case
  proof (cases "notify_result c s res")
    case (Pair eo s')
    with step have inv': "notify_inv (project c) s'" by simp
    show ?thesis
    proof (cases eo)
      case None
      with Pair Cons.IH [OF inv'] show ?thesis by simp
    next
      case (Some e)
      with Pair inv' show ?thesis by simp
    qed
  qed
qed

lemma run_ops_keeps_notify_inv:
  assumes "\<forall>x \<in> set ops. case x of
             Notify c st \<Rightarrow> project c = p
           | Other u t ev \<Rightarrow> get_str ev (U ''type'') \<noteq> Some (U ''RESULT_NOTIFIED'')"
    and "notify_inv p s"
  shows "notify_inv p (run_ops s ops)"
  using assms
proof (induction s ops rule: run_ops.induct)
  case (1 s)
  then show ?case by simp
next
  case (2 s c st ops)
  from "2.prems" have pc: "project c = p" by simp
  with "2.prems" notify_all_keeps_notify_inv [of c s "aggregate_results st"]
  have "notify_inv p (snd (process_results c s st))"
    by (simp add: process_results_def)
  with "2.IH" "2.prems" show ?case by simp
next
  case (3 s u t ev ops)
  from "3.prems" have nt: "get_str ev (U ''type'') \<noteq> Some (U ''RESULT_NOTIFIED'')" by simp
  show ?case
  proof (cases "append_event u t s ev")
    case (Inl e)
    with "3.IH"(1) "3.prems" show ?thesis by simp
  next
    case (Inr q)
    obtain r s' where q: "q = (r, s')" by (cases q)
    from append_event_keeps_notify_inv [OF "3.prems"(2) Inr [unfolded q]] nt
    have "notify_inv p s'" by blast
    with "3.IH"(2) [OF Inr [unfolded q] refl] "3.prems" Inr q show ?thesis by simp
  qed
qed

lemma notify_inv_fresh: "notify_inv p fresh_store"
  by (simp add: notify_inv_def index_covers_log_def notified_keyed_def notified_once_def
      fresh_store_def)

text \<open>
  C6. Starting from a fresh project, after any number of ticks of an orchestrator of
  project \<open>p\<close>, interleaved with any appends of events of other types, the log holds at
  most one \<open>RESULT_NOTIFIED\<close> for each pair of task and run. The step aggregates a
  finished task again on every tick; it is the idempotency key
  \<open>project:taskId:runId:notified\<close> that makes the second append a duplicate.
\<close>

theorem result_notified_at_most_once:
  assumes "\<forall>x \<in> set ops. case x of
             Notify c st \<Rightarrow> project c = p
           | Other u t ev \<Rightarrow> get_str ev (U ''type'') \<noteq> Some (U ''RESULT_NOTIFIED'')"
  shows "length (filter (notified_for tid rid) (events_file (run_ops fresh_store ops))) \<le> 1"
proof -
  from assms notify_inv_fresh have "notify_inv p (run_ops fresh_store ops)"
    by (rule run_ops_keeps_notify_inv)
  then show ?thesis
    by (simp add: notify_inv_def notified_once_def)
qed

theorem result_notified_at_most_once_witness:
  "length (filter (notified_for (Some (U ''T1'')) (Some (U ''r-1'')))
     (events_file (run_ops fresh_store
        [Notify example_ctx
           ((build_base_status (U ''1970-01-01T00:06:40.000000Z'') (U ''demo''))
              \<lparr>tasks := [[(U ''taskId'', JStr (U ''T1'')), (U ''resultSummary'', JNull),
                          (U ''evidencePath'', JNull), (U ''lastRunId'', JStr (U ''r-1'')),
                          (U ''taskSpec'', JNull)]]\<rparr>),
         Other (U ''0c'') (U ''1970-01-01T00:06:41.000000Z'')
           [(U ''type'', JStr (U ''WATCHDOG_HEARTBEAT'')), (U ''idempotencyKey'', JStr (U ''demo:hb:1''))],
         Notify example_ctx
           ((build_base_status (U ''1970-01-01T00:06:50.000000Z'') (U ''demo''))
              \<lparr>tasks := [[(U ''taskId'', JStr (U ''T1'')), (U ''resultSummary'', JNull),
                          (U ''evidencePath'', JNull), (U ''lastRunId'', JStr (U ''r-1'')),
                          (U ''taskSpec'', JNull)]]\<rparr>)]))) \<le> 1"
  by (rule result_notified_at_most_once [where p = "U ''demo''"]) (simp add: example_ctx_def get_str_def)

subsection \<open>What the parts of the fold read and write\<close>



















subsection \<open>Determinism of the reducer\<close>



















subsection \<open>A run-bound event of another run\<close>















end
